theory Spec2Isabelle
  imports Main "HOL-Library.Word"
begin

section \<open>Values, bitmaps and images\<close>

text \<open>
  The bitmap layer of jimp (\<^verbatim>\<open>src/utils/image-bitmap.js\<close>) is JavaScript: values are
  dynamically typed, functions may throw any value, and results are reported to a
  Node-style callback. The embedding keeps all three explicit.

  \<^item> \<open>jsval\<close> holds the JavaScript values the two entry points test or hand on: the
    argument \<^verbatim>\<open>mime\<close> of \<^verbatim>\<open>getBuffer\<close> (the number \<^verbatim>\<open>-1\<close>, a string, or anything
    else), the argument \<^verbatim>\<open>cb\<close> (a function or not), the values thrown by the codecs
    and the errors given to the callback. \<open>ErrorObj m\<close> is \<^verbatim>\<open>new Error(m)\<close>;
    \<open>TypeError\<close> is the error the engine throws when a non-function is called or a
    property of \<^verbatim>\<open>undefined\<close> is read (its message depends on the engine and is left
    out); \<open>Function\<close> is a callback.
  \<^item> A callback is a recorder: calling it appends its arguments to the list of calls
    and returns normally. Calling a value that is not a function throws \<open>TypeError\<close>.
  \<^item> Strings are ASCII strings.
\<close>

type_synonym bytes = "8 word list"

datatype jsval =
    Undefined
  | Null
  | Bool bool
  | Num int
  | Str string
  | ErrorObj string
  | TypeError
  | Function

text \<open>\<^verbatim>\<open>typeof v === 'string'\<close> and \<^verbatim>\<open>typeof v === 'function'\<close>.\<close>

fun is_string :: "jsval \<Rightarrow> bool" where
  "is_string (Str s) = True"
| "is_string v = False"

fun is_function :: "jsval \<Rightarrow> bool" where
  "is_function Function = True"
| "is_function v = False"

text \<open>The truth value JavaScript gives a value in \<^verbatim>\<open>if (v)\<close> and \<^verbatim>\<open>a && b\<close>.\<close>

fun truthy :: "jsval \<Rightarrow> bool" where
  "truthy Undefined = False"
| "truthy Null = False"
| "truthy (Bool b) = b"
| "truthy (Num n) = (n \<noteq> 0)"
| "truthy (Str s) = (s \<noteq> [])"
| "truthy v = True"

text \<open>
  \<^verbatim>\<open>String.prototype.toLowerCase\<close> on ASCII: the letters \<^verbatim>\<open>A\<close> to \<^verbatim>\<open>Z\<close> (codes 65 to 90)
  move up by 32, every other character stays.
\<close>

definition lower_char :: "char \<Rightarrow> char" where
  "lower_char c =
     (if (65::nat) \<le> of_char c \<and> of_char c \<le> (90::nat)
      then char_of (of_char c + (32::nat)) else c)"

definition toLowerCase :: "string \<Rightarrow> string" where
  "toLowerCase s = map lower_char s"

text \<open>The bitmap \<^verbatim>\<open>{ data, width, height }\<close> held in \<^verbatim>\<open>this.bitmap\<close>.\<close>

record bitmap =
  data :: bytes
  width :: nat
  height :: nat

text \<open>
  The result of the EXIF parser as far as \<^verbatim>\<open>exifRotate\<close> reads it:
  \<^verbatim>\<open>exif.tags\<close> may be missing, and \<^verbatim>\<open>exif.tags.Orientation\<close> is any value
  (\<open>Undefined\<close> when the tag is missing).
\<close>

record exif_tags =
  Orientation :: jsval

record exif_data =
  tags :: "exif_tags option"

text \<open>
  The fields of the image object (\<^verbatim>\<open>this\<close>) that the two entry points read or write.
  The source names them \<^verbatim>\<open>bitmap\<close>, \<^verbatim>\<open>_originalMime\<close>, \<^verbatim>\<open>_exif\<close>, \<^verbatim>\<open>_background\<close>,
  \<^verbatim>\<open>_rgba\<close>, \<^verbatim>\<open>_quality\<close>, \<^verbatim>\<open>_deflateLevel\<close>, \<^verbatim>\<open>_deflateStrategy\<close> and
  \<^verbatim>\<open>_filterType\<close>; the leading underscore is dropped here. A field that was never
  assigned is \<open>None\<close>.
\<close>

record image =
  bitmap :: "bitmap option"
  originalMime :: "string option"
  exif :: "exif_data option"
  background :: nat
  rgba :: bool
  quality :: nat
  deflateLevel :: int
  deflateStrategy :: int
  filterType :: int

text \<open>One call of the callback: the error argument and the value argument.\<close>

datatype cb_value = NoValue | ImageVal image | BufferVal bytes

datatype cb_call = CbCall jsval cb_value

text \<open>
  How a call of an entry point ends (\<open>Returned\<close>, or \<open>Thrown v\<close> when the value \<open>v\<close>
  escapes it), and what it leaves behind: the image and the calls of the callback, in
  order.
\<close>

datatype outcome = Returned | Thrown jsval

record run =
  this_after :: image
  cb_calls :: "cb_call list"
  completion :: outcome

section \<open>Constants\<close>

text \<open>From the constants module: the auto sentinel and the MIME tokens.\<close>

definition AUTO :: jsval where
  "AUTO = Num (- 1)"

definition MIME_PNG :: string where
  "MIME_PNG = ''image/png''"

definition MIME_TIFF :: string where
  "MIME_TIFF = ''image/tiff''"

definition MIME_JPEG :: string where
  "MIME_JPEG = ''image/jpeg''"

definition MIME_JGD :: string where
  "MIME_JGD = ''image/jgd''"

definition MIME_BMP :: string where
  "MIME_BMP = ''image/bmp''"

definition MIME_X_MS_BMP :: string where
  "MIME_X_MS_BMP = ''image/x-ms-bmp''"

definition MIME_GIF :: string where
  "MIME_GIF = ''image/gif''"

section \<open>The collaborators\<close>

text \<open>
  The codecs (file-type, pngjs, jpeg-js, bmp-js, utif, exif-parser, omggif), the helper
  modules \<^verbatim>\<open>./abgr\<close> and \<^verbatim>\<open>./mime\<close>, and the methods of the image class
  (\<^verbatim>\<open>getMIME\<close>, \<^verbatim>\<open>mirror\<close>, \<^verbatim>\<open>rotate\<close>, \<^verbatim>\<open>composite\<close>, the constructor) are
  called by the file and defined elsewhere. They are parameters of the model, collected
  in one record, so that every result holds whatever they compute. A primitive that may throw returns \<open>Inl v\<close> for
  the thrown value \<open>v\<close>.

  \<^item> \<open>fileType\<close> is \<^verbatim>\<open>fileType(buffer)\<close>: \<open>None\<close> when no signature matches.
  \<^item> \<open>MIME_getType\<close> is \<^verbatim>\<open>MIME.getType(path)\<close>; its result is tested with
    \<^verbatim>\<open>typeof\<close> by the caller, so it is any value.
  \<^item> \<open>getMIME\<close> is \<^verbatim>\<open>this.getMIME()\<close>.
  \<^item> \<open>UTIF_read\<close> stands for the TIFF sequence of \<^verbatim>\<open>parseBitmap\<close>
    (\<^verbatim>\<open>UTIF.decode\<close>, \<^verbatim>\<open>UTIF.decodeImages\<close>, \<^verbatim>\<open>UTIF.toRGBA8\<close> on the first page, width
    and height from its tags 256 and 257), which either yields a bitmap or throws.
  \<^item> \<open>fromAGBR\<close>, \<open>toAGBR\<close>, \<open>img_mirror\<close> and \<open>img_rotate\<close> work on the image in
    place. They read the image and leave a new content of \<^verbatim>\<open>this.bitmap\<close>, together
    with the value they throw, if any; \<open>img_mirror\<close> and \<open>img_rotate\<close> return the image
    for chaining.
  \<^item> \<open>Jimp_new w h bg\<close> is \<^verbatim>\<open>new Jimp(w, h, bg)\<close> and \<open>img_composite base src x y\<close> is
    \<^verbatim>\<open>base.composite(src, x, y)\<close>, which returns \<open>base\<close> as changed and leaves \<open>src\<close>
    as it is.
\<close>

record file_type =
  ext :: string
  mime :: string

record gif_reader =
  gif_width :: nat
  gif_height :: nat
  gif_frames :: bytes

record png =
  png_width :: nat
  png_height :: nat
  bitDepth :: nat
  png_deflateLevel :: int
  png_deflateStrategy :: int
  png_filterType :: int
  colorType :: nat
  inputHasAlpha :: bool
  png_data :: bytes

type_synonym image_op = "image \<Rightarrow> bitmap option \<times> jsval option"

record env =
  fileType :: "bytes \<Rightarrow> file_type option"
  MIME_getType :: "string \<Rightarrow> jsval"
  getMIME :: "image \<Rightarrow> jsval"
  PNG_sync_read :: "bytes \<Rightarrow> jsval + bitmap"
  JPEG_decode :: "bytes \<Rightarrow> jsval + bitmap"
  EXIFParser_parse :: "bytes \<Rightarrow> jsval + exif_data"
  UTIF_read :: "bytes \<Rightarrow> jsval + bitmap"
  BMP_decode :: "bytes \<Rightarrow> jsval + bitmap"
  GifReader :: "bytes \<Rightarrow> jsval + gif_reader"
  decodeAndBlitFrameRGBA :: "gif_reader \<Rightarrow> nat \<Rightarrow> bytes \<Rightarrow> jsval + bytes"
  fromAGBR :: image_op
  toAGBR :: image_op
  img_mirror :: "bool \<Rightarrow> bool \<Rightarrow> image_op"
  img_rotate :: "int \<Rightarrow> bool \<Rightarrow> image_op"
  Jimp_new :: "nat \<Rightarrow> nat \<Rightarrow> nat \<Rightarrow> jsval + image"
  img_composite :: "image \<Rightarrow> image \<Rightarrow> int \<Rightarrow> int \<Rightarrow> jsval + image"
  PNG_sync_write :: "png \<Rightarrow> jsval + bytes"
  JPEG_encode :: "bitmap option \<Rightarrow> nat \<Rightarrow> jsval + bytes"
  BMP_encode :: "bitmap option \<Rightarrow> jsval + bytes"
  UTIF_encodeImage :: "bytes \<Rightarrow> nat \<Rightarrow> nat \<Rightarrow> jsval + bytes"

text \<open>Running an in-place operation on the image: \<^verbatim>\<open>this.bitmap\<close> gets the new content.\<close>

definition run_op :: "image_op \<Rightarrow> image \<Rightarrow> image \<times> jsval option" where
  "run_op f this = (case f this of (b, e) \<Rightarrow> (this\<lparr>bitmap := b\<rparr>, e))"

text \<open>\<^verbatim>\<open>a.f(...).g(...)\<close>: the second call runs only when the first did not throw.\<close>

definition then_op :: "image \<times> jsval option \<Rightarrow> image_op \<Rightarrow> image \<times> jsval option" where
  "then_op r g = (case r of (this, Some e) \<Rightarrow> (this, Some e) | (this, None) \<Rightarrow> run_op g this)"

section \<open>Format sniffing\<close>

definition getMIMEFromBuffer :: "env \<Rightarrow> bytes \<Rightarrow> string option \<Rightarrow> jsval" where
  "getMIMEFromBuffer E buffer path =
     (case fileType E buffer of
        Some fileTypeFromBuffer \<Rightarrow> Str (mime fileTypeFromBuffer)
      | None \<Rightarrow>
          (case path of
             Some p \<Rightarrow> (if p \<noteq> [] then MIME_getType E p else Null)
           | None \<Rightarrow> Null))"

section \<open>EXIF orientation\<close>

text \<open>
  \<^verbatim>\<open>exif && exif.tags && exif.tags.Orientation\<close>: the value of the orientation tag when
  all three are there, a falsy value otherwise.
\<close>

definition orientation_of :: "image \<Rightarrow> jsval" where
  "orientation_of img =
     (case exif img of
        None \<Rightarrow> Undefined
      | Some x \<Rightarrow> (case tags x of None \<Rightarrow> Undefined | Some t \<Rightarrow> Orientation t))"

definition exifRotate :: "env \<Rightarrow> image \<Rightarrow> image \<times> jsval option" where
  "exifRotate E img =
     (let orientation = orientation_of img in
      if truthy orientation then
        (if orientation = Num 1 then (img, None)
         else if orientation = Num 2 then run_op (img_mirror E True False) img
         else if orientation = Num 3 then run_op (img_rotate E 180 False) img
         else if orientation = Num 4 then run_op (img_mirror E False True) img
         else if orientation = Num 5 then
           then_op (run_op (img_rotate E (- 90) False) img) (img_mirror E True False)
         else if orientation = Num 6 then run_op (img_rotate E (- 90) False) img
         else if orientation = Num 7 then
           then_op (run_op (img_rotate E 90 False) img) (img_mirror E True False)
         else if orientation = Num 8 then run_op (img_rotate E (- 270) False) img
         else (img, None))
      else (img, None))"

section \<open>Decoding\<close>

text \<open>
  \<^verbatim>\<open>getBitmapFromGIF\<close>: the reader is built from the bytes, a zero-filled buffer of
  \<^verbatim>\<open>width * height * 4\<close> bytes is allocated, and frame 0 is blitted into it.
\<close>

definition getBitmapFromGIF :: "env \<Rightarrow> bytes \<Rightarrow> jsval + bitmap" where
  "getBitmapFromGIF E d =
     (case GifReader E d of
        Inl e \<Rightarrow> Inl e
      | Inr gifObj \<Rightarrow>
          (let gifData = replicate (gif_width gifObj * gif_height gifObj * 4) (0::8 word) in
           case decodeAndBlitFrameRGBA E gifObj 0 gifData of
             Inl e \<Rightarrow> Inl e
           | Inr blitted \<Rightarrow>
               Inr \<lparr>data = blitted, width = gif_width gifObj, height = gif_height gifObj\<rparr>))"

text \<open>
  Calling \<^verbatim>\<open>cb\<close> with the given arguments, after the calls \<open>cs\<close> made so far: the new
  list of calls, and the value thrown when \<^verbatim>\<open>cb\<close> is not a function.
\<close>

definition invoke :: "jsval \<Rightarrow> cb_call \<Rightarrow> cb_call list \<Rightarrow> cb_call list \<times> jsval option" where
  "invoke cb c cs = (if is_function cb then (cs @ [c], None) else (cs, Some TypeError))"

text \<open>
  Modelled from the spec: \<^verbatim>\<open>throwError\<close> is imported from \<^verbatim>\<open>./error-checking\<close>, which is
  not among the sources. The spec reports every failure through the completion
  callback and counts a missing completion handler as an error of its own; so
  \<^verbatim>\<open>throwError(message, cb)\<close> gives \<^verbatim>\<open>new Error(message)\<close> to \<^verbatim>\<open>cb\<close> when \<^verbatim>\<open>cb\<close> is a
  function, and throws it when there is no function to give it to. The result is the
  calls made and the value thrown, if any.
\<close>

definition throwError :: "string \<Rightarrow> jsval \<Rightarrow> cb_call list \<times> jsval option" where
  "throwError message cb =
     (if is_function cb then ([CbCall (ErrorObj message) NoValue], None)
      else ([], Some (ErrorObj message)))"

text \<open>
  How the body of the \<^verbatim>\<open>try\<close> block of \<^verbatim>\<open>parseBitmap\<close> ends: it reaches a
  \<^verbatim>\<open>break\<close> (control goes on after the \<^verbatim>\<open>try\<close> statement), it returns from the
  function, or it throws into the \<^verbatim>\<open>catch\<close> clause.
\<close>

datatype signal = Break | Return | Throw jsval

text \<open>
  The \<^verbatim>\<open>switch (this.getMIME())\<close> inside the \<^verbatim>\<open>try\<close> block. The inner
  \<^verbatim>\<open>try\<close>/\<^verbatim>\<open>catch\<close> blocks of the JPEG and BMP cases drop what is thrown inside them
  and keep what had been assigned before.
\<close>

definition decode_switch ::
  "env \<Rightarrow> bytes \<Rightarrow> string \<Rightarrow> jsval \<Rightarrow> image \<Rightarrow> image \<times> cb_call list \<times> signal" where
  "decode_switch E d mime_str cb this =
     (let m = getMIME E this in
      if m = Str MIME_PNG then
        (case PNG_sync_read E d of
           Inl e \<Rightarrow> (this, [], Throw e)
         | Inr p \<Rightarrow>
             (this\<lparr>bitmap := Some \<lparr>data = data p, width = width p, height = height p\<rparr>\<rparr>,
              [], Break))
      else if m = Str MIME_JPEG then
        (case JPEG_decode E d of
           Inl e \<Rightarrow> (this, [], Throw e)
         | Inr b \<Rightarrow>
             (let this1 = this\<lparr>bitmap := Some b\<rparr> in
              case EXIFParser_parse E d of
                Inl err \<Rightarrow> (this1, [], Break)
              | Inr x \<Rightarrow> (fst (exifRotate E (this1\<lparr>exif := Some x\<rparr>)), [], Break)))
      else if m = Str MIME_TIFF then
        (case UTIF_read E d of
           Inl e \<Rightarrow> (this, [], Throw e)
         | Inr t \<Rightarrow> (this\<lparr>bitmap := Some t\<rparr>, [], Break))
      else if m = Str MIME_BMP \<or> m = Str MIME_X_MS_BMP then
        (case BMP_decode E d of
           Inl e \<Rightarrow> (this, [], Break)
         | Inr b \<Rightarrow> (fst (run_op (fromAGBR E) (this\<lparr>bitmap := Some b\<rparr>)), [], Break))
      else if m = Str MIME_GIF then
        (case getBitmapFromGIF E d of
           Inl e \<Rightarrow> (this, [], Throw e)
         | Inr g \<Rightarrow> (this\<lparr>bitmap := Some g\<rparr>, [], Break))
      else
        (case throwError (''Unsupported MIME type: '' @ mime_str) cb of
           (cs, None) \<Rightarrow> (this, cs, Return)
         | (cs, Some e) \<Rightarrow> (this, cs, Throw e)))"

text \<open>\<^verbatim>\<open>'' + path\<close>: an undefined path prints as \<^verbatim>\<open>undefined\<close>.\<close>

definition path_text :: "string option \<Rightarrow> string" where
  "path_text path = (case path of None \<Rightarrow> ''undefined'' | Some p \<Rightarrow> p)"

text \<open>The last statement of \<^verbatim>\<open>parseBitmap\<close>: \<^verbatim>\<open>cb.call(this, null, this)\<close>, then return.\<close>

definition report_success :: "jsval \<Rightarrow> image \<Rightarrow> cb_call list \<Rightarrow> run" where
  "report_success cb this cs =
     (case invoke cb (CbCall Null (ImageVal this)) cs of
        (cs', None) \<Rightarrow> \<lparr>this_after = this, cb_calls = cs', completion = Returned\<rparr>
      | (cs', Some t) \<Rightarrow> \<lparr>this_after = this, cb_calls = cs', completion = Thrown t\<rparr>)"

text \<open>
  \<^verbatim>\<open>parseBitmap(data, path, cb)\<close> on the image \<open>this\<close>. The \<^verbatim>\<open>catch\<close> clause calls the
  callback with the error and does not return, so control goes on to the statement
  after the \<^verbatim>\<open>try\<close>.
\<close>

definition parseBitmap :: "env \<Rightarrow> bytes \<Rightarrow> string option \<Rightarrow> jsval \<Rightarrow> image \<Rightarrow> run" where
  "parseBitmap E d path cb this =
     (case getMIMEFromBuffer E d path of
        Str mime_str \<Rightarrow>
          (let this1 = this\<lparr>originalMime := Some (toLowerCase mime_str)\<rparr> in
           case decode_switch E d mime_str cb this1 of
             (this2, cs, Break) \<Rightarrow> report_success cb this2 cs
           | (this2, cs, Return) \<Rightarrow>
               \<lparr>this_after = this2, cb_calls = cs, completion = Returned\<rparr>
           | (this2, cs, Throw error) \<Rightarrow>
               (case invoke cb (CbCall error (ImageVal this2)) cs of
                  (cs', Some t) \<Rightarrow>
                    \<lparr>this_after = this2, cb_calls = cs', completion = Thrown t\<rparr>
                | (cs', None) \<Rightarrow> report_success cb this2 cs'))
      | other \<Rightarrow>
          (case invoke cb
                  (CbCall (ErrorObj (''Could not find MIME for Buffer <'' @ path_text path @ ''>''))
                     NoValue) [] of
             (cs, None) \<Rightarrow> \<lparr>this_after = this, cb_calls = cs, completion = Returned\<rparr>
           | (cs, Some t) \<Rightarrow> \<lparr>this_after = this, cb_calls = cs, completion = Thrown t\<rparr>))"

section \<open>Encoding\<close>

text \<open>
  \<^verbatim>\<open>compositeBitmapOverBackground\<close>: reading \<^verbatim>\<open>image.bitmap.width\<close> throws when the
  image \<open>img\<close> has no bitmap; the result is the \<^verbatim>\<open>bitmap\<close> field of the composite.
\<close>

definition compositeBitmapOverBackground :: "env \<Rightarrow> image \<Rightarrow> jsval + bitmap option" where
  "compositeBitmapOverBackground E img =
     (case bitmap img of
        None \<Rightarrow> Inl TypeError
      | Some b \<Rightarrow>
          (case Jimp_new E (width b) (height b) (background img) of
             Inl e \<Rightarrow> Inl e
           | Inr base \<Rightarrow>
               (case img_composite E base img 0 0 of
                  Inl e \<Rightarrow> Inl e
                | Inr r \<Rightarrow> Inr (bitmap r))))"

text \<open>The PNG case of \<^verbatim>\<open>getBuffer\<close>, up to the buffer given to the callback.\<close>

definition encode_png :: "env \<Rightarrow> image \<Rightarrow> jsval + bytes" where
  "encode_png E this =
     (case bitmap this of
        None \<Rightarrow> Inl TypeError
      | Some b \<Rightarrow>
          (let p = \<lparr>png_width = width b, png_height = height b, bitDepth = 8,
                    png_deflateLevel = deflateLevel this,
                    png_deflateStrategy = deflateStrategy this,
                    png_filterType = filterType this,
                    colorType = (if rgba this then 6 else 2),
                    inputHasAlpha = True, png_data = []\<rparr> in
           if rgba this then PNG_sync_write E (p\<lparr>png_data := data b\<rparr>)
           else
             (case compositeBitmapOverBackground E this of
                Inl e \<Rightarrow> Inl e
              | Inr None \<Rightarrow> Inl TypeError
              | Inr (Some c) \<Rightarrow> PNG_sync_write E (p\<lparr>png_data := data c\<rparr>))))"

text \<open>The JPEG case.\<close>

definition encode_jpeg :: "env \<Rightarrow> image \<Rightarrow> jsval + bytes" where
  "encode_jpeg E this =
     (case compositeBitmapOverBackground E this of
        Inl e \<Rightarrow> Inl e
      | Inr c \<Rightarrow> JPEG_encode E c (quality this))"

text \<open>
  The BMP case: \<^verbatim>\<open>toAGBR(this)\<close> works on the image itself, so the image it leaves is
  part of the result, also when it or the encoder throws.
\<close>

definition encode_bmp :: "env \<Rightarrow> image \<Rightarrow> image \<times> (jsval + bytes)" where
  "encode_bmp E this =
     (case run_op (toAGBR E) this of
        (this1, Some e) \<Rightarrow> (this1, Inl e)
      | (this1, None) \<Rightarrow>
          (this1,
           case compositeBitmapOverBackground E this1 of
             Inl e \<Rightarrow> Inl e
           | Inr c \<Rightarrow> BMP_encode E c))"

text \<open>The TIFF case.\<close>

definition encode_tiff :: "env \<Rightarrow> image \<Rightarrow> jsval + bytes" where
  "encode_tiff E this =
     (case compositeBitmapOverBackground E this of
        Inl e \<Rightarrow> Inl e
      | Inr None \<Rightarrow> Inl TypeError
      | Inr (Some c) \<Rightarrow> UTIF_encodeImage E (data c) (width c) (height c))"

text \<open>
  \<^verbatim>\<open>cb.call(this, null, buffer)\<close> once the encoder has returned; what the encoder
  throws leaves \<^verbatim>\<open>getBuffer\<close>, which has no \<^verbatim>\<open>try\<close>.
\<close>

definition deliver :: "image \<Rightarrow> jsval + bytes \<Rightarrow> run" where
  "deliver this r =
     (case r of
        Inl e \<Rightarrow> \<lparr>this_after = this, cb_calls = [], completion = Thrown e\<rparr>
      | Inr buffer \<Rightarrow>
          \<lparr>this_after = this, cb_calls = [CbCall Null (BufferVal buffer)],
           completion = Returned\<rparr>)"

text \<open>The result of \<^verbatim>\<open>return throwError.call(this, message, cb)\<close> in \<^verbatim>\<open>getBuffer\<close>.\<close>

definition fail_with :: "string \<Rightarrow> jsval \<Rightarrow> image \<Rightarrow> run" where
  "fail_with message cb this =
     (case throwError message cb of
        (cs, None) \<Rightarrow> \<lparr>this_after = this, cb_calls = cs, completion = Returned\<rparr>
      | (cs, Some e) \<Rightarrow> \<lparr>this_after = this, cb_calls = cs, completion = Thrown e\<rparr>)"

text \<open>
  \<^verbatim>\<open>getBuffer(mime, cb)\<close> on the image \<open>this\<close>. In the default case the callback gets
  the message as a bare string, built from \<^verbatim>\<open>mime\<close> as it was passed.
\<close>

definition getBuffer :: "env \<Rightarrow> jsval \<Rightarrow> jsval \<Rightarrow> image \<Rightarrow> run" where
  "getBuffer E mime0 cb this =
     (let mime1 = (if mime0 = AUTO then getMIME E this else mime0) in
      case mime1 of
        Str mime_str \<Rightarrow>
          (if \<not> is_function cb then fail_with ''cb must be a function'' cb this
           else
             (let target = toLowerCase mime_str in
              if target = MIME_PNG then deliver this (encode_png E this)
              else if target = MIME_JPEG then deliver this (encode_jpeg E this)
              else if target = MIME_BMP \<or> target = MIME_X_MS_BMP then
                (case encode_bmp E this of (this1, r) \<Rightarrow> deliver this1 r)
              else if target = MIME_TIFF then deliver this (encode_tiff E this)
              else
                \<lparr>this_after = this,
                 cb_calls = [CbCall (Str (''Unsupported MIME type: '' @ mime_str)) NoValue],
                 completion = Returned\<rparr>))
      | other \<Rightarrow> fail_with ''mime must be a string'' cb this)"

section \<open>The vocabulary of the specification\<close>

text \<open>
  The error kinds of section 7 of the specification. The source has no such kinds, it
  only builds messages; each kind is read off the message the source builds for it.
  \<open>InvalidArgument\<close> is a malformed target-format argument or a missing completion
  handler (the messages \<^verbatim>\<open>mime must be a string\<close> and \<^verbatim>\<open>cb must be a function\<close>),
  \<open>UnsupportedFormat\<close> is a format with no adapter or no encode path
  (\<^verbatim>\<open>Unsupported MIME type: ...\<close>), \<open>UnknownFormat\<close> is failed sniffing
  (\<^verbatim>\<open>Could not find MIME for Buffer <...>\<close>), and \<open>CodecError\<close> is whatever a codec
  raised. A \<^verbatim>\<open>null\<close> or missing error argument is no error.
\<close>

datatype error_kind = UnknownFormat | UnsupportedFormat | CodecError | InvalidArgument

definition starts_with :: "string \<Rightarrow> string \<Rightarrow> bool" where
  "starts_with p s = (take (length p) s = p)"

definition kind_of_message :: "string \<Rightarrow> error_kind" where
  "kind_of_message m =
     (if m = ''mime must be a string'' \<or> m = ''cb must be a function'' then InvalidArgument
      else if starts_with ''Unsupported MIME type: '' m then UnsupportedFormat
      else if starts_with ''Could not find MIME for Buffer <'' m then UnknownFormat
      else CodecError)"

fun kind_of :: "jsval \<Rightarrow> error_kind option" where
  "kind_of Null = None"
| "kind_of Undefined = None"
| "kind_of (ErrorObj m) = Some (kind_of_message m)"
| "kind_of (Str m) = Some (kind_of_message m)"
| "kind_of v = Some CodecError"

text \<open>
  The table of section 4.4 of the specification, which gives for each EXIF orientation
  code the calls of the mirror and rotate capability, in order: \<open>Mirror h v\<close> is
  \<^verbatim>\<open>mirror(horizontal, vertical)\<close> and \<open>Rotate d r\<close> is \<^verbatim>\<open>rotate(degrees, resizeCanvas)\<close>.
  The table leaves the second argument of \<^verbatim>\<open>rotate\<close> open; it is \<^verbatim>\<open>false\<close> here, as in
  every call the source makes.
\<close>

datatype capability_call = Mirror bool bool | Rotate int bool

definition orientation_correction :: "int \<Rightarrow> capability_call list" where
  "orientation_correction code =
     (if code = 1 then []
      else if code = 2 then [Mirror True False]
      else if code = 3 then [Rotate 180 False]
      else if code = 4 then [Mirror False True]
      else if code = 5 then [Rotate (- 90) False, Mirror True False]
      else if code = 6 then [Rotate (- 90) False]
      else if code = 7 then [Rotate 90 False, Mirror True False]
      else if code = 8 then [Rotate (- 270) False]
      else [])"

fun capability :: "env \<Rightarrow> capability_call \<Rightarrow> image_op" where
  "capability E (Mirror horizontal vertical) = img_mirror E horizontal vertical"
| "capability E (Rotate degrees resize) = img_rotate E degrees resize"

text \<open>Making the calls one after the other on the image, up to the first that throws.\<close>

fun apply_calls :: "env \<Rightarrow> capability_call list \<Rightarrow> image \<Rightarrow> image \<times> jsval option" where
  "apply_calls E [] img = (img, None)"
| "apply_calls E (c # cs) img =
     (case run_op (capability E c) img of
        (img', Some e) \<Rightarrow> (img', Some e)
      | (img', None) \<Rightarrow> apply_calls E cs img')"

text \<open>The format tokens for which \<^verbatim>\<open>getBuffer\<close> has an encoder.\<close>

definition encodable :: "string \<Rightarrow> bool" where
  "encodable t =
     (t = MIME_PNG \<or> t = MIME_JPEG \<or> t = MIME_BMP \<or> t = MIME_X_MS_BMP \<or> t = MIME_TIFF)"

section \<open>A sample environment\<close>

text \<open>
  A small environment on which the model runs on concrete inputs. \<open>sample_fileType\<close>
  knows the first bytes of the PNG, JPEG, BMP, GIF and TIFF signatures, and
  \<open>sample_getType\<close> three file extensions. The codecs read a toy format: the signature
  (four bytes for PNG and TIFF; three for JPEG, followed by one byte for the EXIF
  orientation tag; two for BMP; three for GIF), one byte for the width, one for the
  height, then four bytes per pixel. They throw when the pixel data does not have that
  length. \<open>sample_getMIME\<close> reads the recorded format and falls back to PNG when there
  is none. The channel-order conversion reverses the four bytes of each pixel, rotation
  makes quarter turns, and compositing keeps the background where the source is fully
  transparent.
\<close>

definition sample_fileType :: "bytes \<Rightarrow> file_type option" where
  "sample_fileType b =
     (if take 4 b = [0x89, 0x50, 0x4E, 0x47] then Some \<lparr>ext = ''png'', mime = ''image/png''\<rparr>
      else if take 3 b = [0xFF, 0xD8, 0xFF] then Some \<lparr>ext = ''jpg'', mime = ''image/jpeg''\<rparr>
      else if take 2 b = [0x42, 0x4D] then Some \<lparr>ext = ''bmp'', mime = ''image/bmp''\<rparr>
      else if take 3 b = [0x47, 0x49, 0x46] then Some \<lparr>ext = ''gif'', mime = ''image/gif''\<rparr>
      else if take 4 b = [0x49, 0x49, 0x2A, 0x00] then Some \<lparr>ext = ''tif'', mime = ''image/tiff''\<rparr>
      else None)"

definition sample_getType :: "string \<Rightarrow> jsval" where
  "sample_getType p =
     (let e = drop (length p - 4) p in
      if e = ''.jpg'' then Str ''image/jpeg''
      else if e = ''.png'' then Str ''image/png''
      else if e = ''.bmp'' then Str ''image/bmp''
      else Null)"

definition sample_getMIME :: "image \<Rightarrow> jsval" where
  "sample_getMIME img =
     (case originalMime img of
        None \<Rightarrow> Str MIME_PNG
      | Some m \<Rightarrow> (if m = [] then Str MIME_PNG else Str m))"

definition sample_pixels :: "nat \<Rightarrow> bytes \<Rightarrow> jsval + bitmap" where
  "sample_pixels n b =
     (case drop n b of
        w # h # px \<Rightarrow>
          (if length px = unat w * unat h * 4
           then Inr \<lparr>data = px, width = unat w, height = unat h\<rparr>
           else Inl (ErrorObj ''unexpected end of data''))
      | _ \<Rightarrow> Inl (ErrorObj ''unexpected end of data''))"

definition sample_exif :: "bytes \<Rightarrow> jsval + exif_data" where
  "sample_exif b =
     (case drop 3 b of
        [] \<Rightarrow> Inl (ErrorObj ''Invalid JPEG section offset'')
      | t # _ \<Rightarrow>
          (if t = 0 then Inr \<lparr>tags = None\<rparr>
           else if t \<le> 8 then Inr \<lparr>tags = Some \<lparr>Orientation = Num (uint t)\<rparr>\<rparr>
           else Inl (ErrorObj ''Invalid EXIF data'')))"

text \<open>The pixel in row \<open>r\<close> and column \<open>c\<close> of a buffer with \<open>w\<close> pixels per row.\<close>

definition pixel_at :: "bytes \<Rightarrow> nat \<Rightarrow> nat \<Rightarrow> nat \<Rightarrow> bytes" where
  "pixel_at d w r c = take 4 (drop (4 * (r * w + c)) d)"

definition from_pixels :: "nat \<Rightarrow> nat \<Rightarrow> (nat \<Rightarrow> nat \<Rightarrow> bytes) \<Rightarrow> bitmap" where
  "from_pixels w h f =
     \<lparr>data = concat (map (\<lambda>r. concat (map (\<lambda>c. f r c) [0..<w])) [0..<h]),
      width = w, height = h\<rparr>"

definition quarter_turn :: "bitmap \<Rightarrow> bitmap" where
  "quarter_turn b =
     from_pixels (height b) (width b)
       (\<lambda>r c. pixel_at (data b) (width b) c (width b - 1 - r))"

definition sample_rotate :: "int \<Rightarrow> bool \<Rightarrow> image_op" where
  "sample_rotate degrees resize img =
     (case bitmap img of
        None \<Rightarrow> (None, Some TypeError)
      | Some b \<Rightarrow>
          (if degrees mod 90 = 0
           then (Some ((quarter_turn ^^ nat (degrees div 90 mod 4)) b), None)
           else (Some b, Some (ErrorObj ''only quarter turns''))))"

definition sample_mirror :: "bool \<Rightarrow> bool \<Rightarrow> image_op" where
  "sample_mirror horizontal vertical img =
     (case bitmap img of
        None \<Rightarrow> (None, Some TypeError)
      | Some b \<Rightarrow>
          (Some (from_pixels (width b) (height b)
             (\<lambda>r c. pixel_at (data b) (width b)
                (if vertical then height b - 1 - r else r)
                (if horizontal then width b - 1 - c else c))), None))"

fun swap_channels :: "bytes \<Rightarrow> bytes" where
  "swap_channels (r # g # b # a # rest) = a # b # g # r # swap_channels rest"
| "swap_channels rest = rest"

definition sample_swap :: image_op where
  "sample_swap img =
     (case bitmap img of
        None \<Rightarrow> (None, Some TypeError)
      | Some b \<Rightarrow> (Some (b\<lparr>data := swap_channels (data b)\<rparr>), None))"

definition colour_bytes :: "nat \<Rightarrow> bytes" where
  "colour_bytes c =
     [of_nat (c div 16777216 mod 256), of_nat (c div 65536 mod 256),
      of_nat (c div 256 mod 256), of_nat (c mod 256)]"

definition sample_new :: "nat \<Rightarrow> nat \<Rightarrow> nat \<Rightarrow> jsval + image" where
  "sample_new w h bg =
     Inr \<lparr>bitmap = Some (from_pixels w h (\<lambda>r c. colour_bytes bg)),
          originalMime = None, exif = None, background = bg, rgba = True, quality = 100,
          deflateLevel = 9, deflateStrategy = 3, filterType = - 1\<rparr>"

fun over :: "bytes \<Rightarrow> bytes \<Rightarrow> bytes" where
  "over (r # g # b # a # src) (r' # g' # b' # a' # dst) =
     (if a = 0 then [r', g', b', 255] else [r, g, b, 255]) @ over src dst"
| "over src dst = dst"

definition sample_composite :: "image \<Rightarrow> image \<Rightarrow> int \<Rightarrow> int \<Rightarrow> jsval + image" where
  "sample_composite base src x y =
     (case (bitmap base, bitmap src) of
        (Some b, Some s) \<Rightarrow> Inr (base\<lparr>bitmap := Some (b\<lparr>data := over (data s) (data b)\<rparr>)\<rparr>)
      | _ \<Rightarrow> Inl TypeError)"

definition sample_bytes :: "bytes \<Rightarrow> bytes \<Rightarrow> nat \<Rightarrow> nat \<Rightarrow> jsval + bytes" where
  "sample_bytes signature d w h =
     (if w < 256 \<and> h < 256 \<and> length d = w * h * 4
      then Inr (signature @ [of_nat w, of_nat h] @ d)
      else Inl (ErrorObj ''cannot encode''))"

definition sample_encode :: "bytes \<Rightarrow> bitmap option \<Rightarrow> jsval + bytes" where
  "sample_encode signature b =
     (case b of
        None \<Rightarrow> Inl TypeError
      | Some c \<Rightarrow> sample_bytes signature (data c) (width c) (height c))"

definition sample_env :: env where
  "sample_env =
     \<lparr>fileType = sample_fileType,
      MIME_getType = sample_getType,
      getMIME = sample_getMIME,
      PNG_sync_read = sample_pixels 4,
      JPEG_decode = sample_pixels 4,
      EXIFParser_parse = sample_exif,
      UTIF_read = sample_pixels 4,
      BMP_decode = sample_pixels 2,
      GifReader = (\<lambda>b. case sample_pixels 3 b of
                           Inl e \<Rightarrow> Inl e
                         | Inr p \<Rightarrow> Inr \<lparr>gif_width = width p, gif_height = height p,
                                         gif_frames = data p\<rparr>),
      decodeAndBlitFrameRGBA = (\<lambda>g frame buffer. Inr (gif_frames g)),
      fromAGBR = sample_swap,
      toAGBR = sample_swap,
      img_mirror = sample_mirror,
      img_rotate = sample_rotate,
      Jimp_new = sample_new,
      img_composite = sample_composite,
      PNG_sync_write = (\<lambda>p. sample_bytes [0x89, 0x50, 0x4E, 0x47] (png_data p)
                                 (png_width p) (png_height p)),
      JPEG_encode = (\<lambda>b q. sample_encode [0xFF, 0xD8, 0xFF, 0] b),
      BMP_encode = sample_encode [0x42, 0x4D],
      UTIF_encodeImage = sample_bytes [0x49, 0x49, 0x2A, 0]\<rparr>"

text \<open>An image that has not been decoded: no bitmap, no recorded format, no metadata.\<close>

definition blank :: image where
  "blank =
     \<lparr>bitmap = None, originalMime = None, exif = None, background = 0, rgba = True,
      quality = 100, deflateLevel = 9, deflateStrategy = 3, filterType = - 1\<rparr>"

section \<open>Evaluation and unfolding\<close>

lemmas MIME_defs =
  MIME_PNG_def MIME_TIFF_def MIME_JPEG_def MIME_JGD_def MIME_BMP_def
  MIME_X_MS_BMP_def MIME_GIF_def

lemmas sample_defs = sample_fileType_def sample_getType_def sample_getMIME_def
  sample_pixels_def sample_exif_def sample_rotate_def sample_mirror_def sample_swap_def
  sample_new_def sample_composite_def sample_bytes_def sample_encode_def
  pixel_at_def from_pixels_def quarter_turn_def colour_bytes_def

lemma lower_png: "toLowerCase ''image/png'' = ''image/png''"
  by code_simp

lemma lower_jpeg: "toLowerCase ''image/jpeg'' = ''image/jpeg''"
  by code_simp

lemma lower_bmp: "toLowerCase ''image/bmp'' = ''image/bmp''"
  by code_simp

lemma lower_gif: "toLowerCase ''image/gif'' = ''image/gif''"
  by code_simp

lemma lower_upper_png: "toLowerCase ''IMAGE/PNG'' = ''image/png''"
  by code_simp

lemma lower_mixed_gif: "toLowerCase ''Image/GIF'' = ''image/gif''"
  by code_simp

lemma lower_upper_bmp: "toLowerCase ''IMAGE/BMP'' = ''image/bmp''"
  by code_simp

lemma lower_upper_jpeg: "toLowerCase ''IMAGE/JPEG'' = ''image/jpeg''"
  by code_simp

lemma lower_upper_tiff: "toLowerCase ''IMAGE/TIFF'' = ''image/tiff''"
  by code_simp

lemma lower_mixed_x_ms_bmp: "toLowerCase ''Image/X-MS-BMP'' = ''image/x-ms-bmp''"
  by code_simp

lemma lower_empty: "toLowerCase [] = []"
  by (simp add: toLowerCase_def)

lemmas lower_simps =
  lower_png lower_jpeg lower_bmp lower_gif lower_upper_png lower_mixed_gif lower_upper_bmp
  lower_empty

lemma lower_char_idem: "lower_char (lower_char c) = lower_char c"
  by (simp add: lower_char_def)

lemma toLowerCase_idem: "toLowerCase (toLowerCase s) = toLowerCase s"
  by (simp add: toLowerCase_def lower_char_idem)

subsection \<open>The entry points, case by case\<close>

lemma getBuffer_string:
  "getBuffer E (Str s) cb this =
     (if \<not> is_function cb then fail_with ''cb must be a function'' cb this
      else if toLowerCase s = MIME_PNG then deliver this (encode_png E this)
      else if toLowerCase s = MIME_JPEG then deliver this (encode_jpeg E this)
      else if toLowerCase s = MIME_BMP \<or> toLowerCase s = MIME_X_MS_BMP then
        deliver (fst (encode_bmp E this)) (snd (encode_bmp E this))
      else if toLowerCase s = MIME_TIFF then deliver this (encode_tiff E this)
      else \<lparr>this_after = this,
            cb_calls = [CbCall (Str (''Unsupported MIME type: '' @ s)) NoValue],
            completion = Returned\<rparr>)"
  by (simp add: getBuffer_def AUTO_def Let_def split: prod.split)

lemma getBuffer_substituted:
  "mime1 = (if mime0 = AUTO then getMIME E this else mime0) \<Longrightarrow>
   getBuffer E mime0 cb this =
     (case mime1 of
        Str s \<Rightarrow> getBuffer E (Str s) cb this
      | _ \<Rightarrow> fail_with ''mime must be a string'' cb this)"
  by (simp add: getBuffer_def AUTO_def split: jsval.split)

lemma report_success_function:
  "is_function cb \<Longrightarrow>
   report_success cb this cs =
     \<lparr>this_after = this, cb_calls = cs @ [CbCall Null (ImageVal this)], completion = Returned\<rparr>"
  by (simp add: report_success_def invoke_def)

lemma report_success_this: "this_after (report_success cb this cs) = this"
  by (simp add: report_success_def split: prod.split option.split)

lemma parseBitmap_string:
  "getMIMEFromBuffer E d path = Str m \<Longrightarrow> is_function cb \<Longrightarrow>
   parseBitmap E d path cb this =
     (case decode_switch E d m cb (this\<lparr>originalMime := Some (toLowerCase m)\<rparr>) of
        (this2, cs, Break) \<Rightarrow> report_success cb this2 cs
      | (this2, cs, Return) \<Rightarrow> \<lparr>this_after = this2, cb_calls = cs, completion = Returned\<rparr>
      | (this2, cs, Throw error) \<Rightarrow>
          report_success cb this2 (cs @ [CbCall error (ImageVal this2)]))"
  by (simp add: parseBitmap_def Let_def invoke_def split: prod.split signal.split)

lemma parseBitmap_this_after:
  "getMIMEFromBuffer E d path = Str m \<Longrightarrow>
   this_after (parseBitmap E d path cb this) =
     fst (decode_switch E d m cb (this\<lparr>originalMime := Some (toLowerCase m)\<rparr>))"
  by (simp add: parseBitmap_def Let_def report_success_this
      split: prod.split signal.split option.split)

lemma parseBitmap_jpeg:
  assumes "getMIMEFromBuffer E d path = Str m"
    and "toLowerCase m = MIME_JPEG"
    and "getMIME E (this\<lparr>originalMime := Some MIME_JPEG\<rparr>) = Str MIME_JPEG"
    and "JPEG_decode E d = Inr b"
    and "is_function cb"
  shows "parseBitmap E d path cb this =
     (case EXIFParser_parse E d of
        Inl err \<Rightarrow>
          \<lparr>this_after = this\<lparr>originalMime := Some MIME_JPEG, bitmap := Some b\<rparr>,
           cb_calls =
             [CbCall Null (ImageVal (this\<lparr>originalMime := Some MIME_JPEG, bitmap := Some b\<rparr>))],
           completion = Returned\<rparr>
      | Inr x \<Rightarrow>
          \<lparr>this_after =
             fst (exifRotate E (this\<lparr>originalMime := Some MIME_JPEG, bitmap := Some b,
                                      exif := Some x\<rparr>)),
           cb_calls =
             [CbCall Null
                (ImageVal (fst (exifRotate E (this\<lparr>originalMime := Some MIME_JPEG,
                                                    bitmap := Some b, exif := Some x\<rparr>))))],
           completion = Returned\<rparr>)"
proof -
  have ne: "MIME_JPEG \<noteq> MIME_PNG" by (simp add: MIME_defs)
  have sw: "decode_switch E d m cb (this\<lparr>originalMime := Some MIME_JPEG\<rparr>) =
      (case EXIFParser_parse E d of
         Inl err \<Rightarrow> (this\<lparr>originalMime := Some MIME_JPEG, bitmap := Some b\<rparr>, [], Break)
       | Inr x \<Rightarrow>
           (fst (exifRotate E (this\<lparr>originalMime := Some MIME_JPEG, bitmap := Some b,
                                     exif := Some x\<rparr>)), [], Break))"
    using ne assms(3,4) by (simp add: decode_switch_def Let_def)
  have pb: "parseBitmap E d path cb this =
      (case decode_switch E d m cb (this\<lparr>originalMime := Some MIME_JPEG\<rparr>) of
         (this2, cs, Break) \<Rightarrow> report_success cb this2 cs
       | (this2, cs, Return) \<Rightarrow> \<lparr>this_after = this2, cb_calls = cs, completion = Returned\<rparr>
       | (this2, cs, Throw error) \<Rightarrow>
           report_success cb this2 (cs @ [CbCall error (ImageVal this2)]))"
    using parseBitmap_string [OF assms(1,5), of this] by (simp only: assms(2))
  show ?thesis
    unfolding pb sw
    by (simp add: report_success_function [OF assms(5)] split: sum.split)
qed

subsection \<open>What the in-place operations leave alone\<close>

lemma run_op_originalMime: "originalMime (fst (run_op f img)) = originalMime img"
  by (simp add: run_op_def split: prod.split)

lemma then_op_originalMime:
  "originalMime (fst (then_op r g)) = originalMime (fst r)"
  by (cases r) (simp add: then_op_def run_op_originalMime split: option.split)

lemma exifRotate_originalMime: "originalMime (fst (exifRotate E img)) = originalMime img"
  by (simp add: exifRotate_def Let_def run_op_originalMime then_op_originalMime)

lemma decode_switch_originalMime:
  "originalMime (fst (decode_switch E d m cb this)) = originalMime this"
  by (simp add: decode_switch_def Let_def run_op_originalMime exifRotate_originalMime
      split: sum.split prod.split option.split)

subsection \<open>The normalizer, code by code\<close>

lemma run_result_id:
  "(case p of (i, None) \<Rightarrow> (i, None) | (i, Some e) \<Rightarrow> (i, Some e)) = (p :: image \<times> jsval option)"
  by (simp split: prod.split option.split)

lemma apply_calls_single: "apply_calls E [c] img = run_op (capability E c) img"
  by (simp add: run_result_id)

lemma apply_calls_pair:
  "apply_calls E [c, c'] img = then_op (run_op (capability E c) img) (capability E c')"
  by (simp add: then_op_def run_result_id split: prod.split option.split)

lemma exifRotate_code:
  "orientation_of img = Num n \<Longrightarrow> 
   exifRotate E img =
     (if n = 1 then (img, None)
      else if n = 2 then run_op (img_mirror E True False) img
      else if n = 3 then run_op (img_rotate E 180 False) img
      else if n = 4 then run_op (img_mirror E False True) img
      else if n = 5 then
        then_op (run_op (img_rotate E (- 90) False) img) (img_mirror E True False)
      else if n = 6 then run_op (img_rotate E (- 90) False) img
      else if n = 7 then
        then_op (run_op (img_rotate E 90 False) img) (img_mirror E True False)
      else if n = 8 then run_op (img_rotate E (- 270) False) img
      else (img, None))"
  by (simp add: exifRotate_def Let_def)

lemma exifRotate_calls:
  "orientation_of img = Num n \<Longrightarrow>
   exifRotate E img = apply_calls E (orientation_correction n) img"
  by (simp add: exifRotate_code orientation_correction_def
      apply_calls_single apply_calls_pair del: apply_calls.simps(2))

lemma apply_calls_first_throws:
  "capability E c img = (b', Some e) \<Longrightarrow>
   apply_calls E (c # cs) img = (img\<lparr>bitmap := b'\<rparr>, Some e)"
  by (simp add: run_op_def)

subsection \<open>Runs on the sample environment\<close>

lemma sample_rotation:
  "apply_calls sample_env (orientation_correction 6)
     (blank\<lparr>bitmap := Some \<lparr>data = [1, 1, 1, 1, 2, 2, 2, 2], width = 2, height = 1\<rparr>,
            exif := Some \<lparr>tags = Some \<lparr>Orientation = Num 6\<rparr>\<rparr>\<rparr>) =
   (blank\<lparr>bitmap := Some \<lparr>data = [1, 1, 1, 1, 2, 2, 2, 2], width = 1, height = 2\<rparr>,
          exif := Some \<lparr>tags = Some \<lparr>Orientation = Num 6\<rparr>\<rparr>\<rparr>, None)"
  by code_simp

lemma sample_png_bytes:
  "getBuffer sample_env (Str ''image/png'') Function
     (blank\<lparr>bitmap := Some \<lparr>data = [1, 2, 3, 4], width = 1, height = 1\<rparr>,
            originalMime := Some ''image/png''\<rparr>) =
     \<lparr>this_after =
        blank\<lparr>bitmap := Some \<lparr>data = [1, 2, 3, 4], width = 1, height = 1\<rparr>,
              originalMime := Some ''image/png''\<rparr>,
      cb_calls = [CbCall Null (BufferVal [0x89, 0x50, 0x4E, 0x47, 1, 1, 1, 2, 3, 4])],
      completion = Returned\<rparr>"
  by (simp add: getBuffer_string lower_simps MIME_defs deliver_def encode_png_def
      sample_env_def sample_defs blank_def)

lemma sample_bmp_bytes:
  "BMP_encode sample_env (Some \<lparr>data = [4, 3, 2, 255], width = 1, height = 1\<rparr>)
     = Inr [0x42, 0x4D, 1, 1, 4, 3, 2, 255]"
  by (simp add: sample_env_def sample_defs)

lemma sample_bmp_composite:
  "compositeBitmapOverBackground sample_env
     (blank\<lparr>bitmap := Some \<lparr>data = [4, 3, 2, 1], width = 1, height = 1\<rparr>\<rparr>) =
   Inr (Some \<lparr>data = [4, 3, 2, 255], width = 1, height = 1\<rparr>)"
  by (simp add: compositeBitmapOverBackground_def sample_env_def sample_defs blank_def)

lemma sample_upper_sniff:
  "getMIMEFromBuffer (sample_env\<lparr>MIME_getType := \<lambda>p. Str ''IMAGE/PNG''\<rparr>) [0, 0]
     (Some ''PHOTO.PNG'') = Str ''IMAGE/PNG''"
  by (simp add: getMIMEFromBuffer_def sample_env_def sample_defs)

lemma sample_half_rotation:
  "exifRotate (sample_env\<lparr>img_mirror := \<lambda>horizontal vertical img.
                                (bitmap img, Some (ErrorObj ''mirror failed''))\<rparr>)
     (blank\<lparr>originalMime := Some MIME_JPEG,
            bitmap := Some \<lparr>data = [1, 1, 1, 1, 2, 2, 2, 2], width = 2, height = 1\<rparr>,
            exif := Some \<lparr>tags = Some \<lparr>Orientation = Num 7\<rparr>\<rparr>\<rparr>) =
   (blank\<lparr>originalMime := Some MIME_JPEG,
          bitmap := Some \<lparr>data = [2, 2, 2, 2, 1, 1, 1, 1], width = 1, height = 2\<rparr>,
          exif := Some \<lparr>tags = Some \<lparr>Orientation = Num 7\<rparr>\<rparr>\<rparr>,
    Some (ErrorObj ''mirror failed''))"
  by code_simp

lemma sample_half_calls:
  "apply_calls (sample_env\<lparr>img_mirror := \<lambda>horizontal vertical img.
                                (bitmap img, Some (ErrorObj ''mirror failed''))\<rparr>)
     (orientation_correction 7)
     (blank\<lparr>originalMime := Some MIME_JPEG,
            bitmap := Some \<lparr>data = [1, 1, 1, 1, 2, 2, 2, 2], width = 2, height = 1\<rparr>,
            exif := Some \<lparr>tags = Some \<lparr>Orientation = Num 7\<rparr>\<rparr>\<rparr>) =
   (blank\<lparr>originalMime := Some MIME_JPEG,
          bitmap := Some \<lparr>data = [2, 2, 2, 2, 1, 1, 1, 1], width = 1, height = 2\<rparr>,
          exif := Some \<lparr>tags = Some \<lparr>Orientation = Num 7\<rparr>\<rparr>\<rparr>,
    Some (ErrorObj ''mirror failed''))"
  by code_simp

lemma sample_jpeg_run:
  "deliver (blank\<lparr>bitmap := Some \<lparr>data = [1, 2, 3, 4], width = 1, height = 1\<rparr>,
                  originalMime := Some ''image/png''\<rparr>)
     (encode_jpeg sample_env
        (blank\<lparr>bitmap := Some \<lparr>data = [1, 2, 3, 4], width = 1, height = 1\<rparr>,
               originalMime := Some ''image/png''\<rparr>)) =
   \<lparr>this_after =
      blank\<lparr>bitmap := Some \<lparr>data = [1, 2, 3, 4], width = 1, height = 1\<rparr>,
            originalMime := Some ''image/png''\<rparr>,
    cb_calls = [CbCall Null (BufferVal [0xFF, 0xD8, 0xFF, 0, 1, 1, 1, 2, 3, 255])],
    completion = Returned\<rparr>"
  by (simp add: deliver_def encode_jpeg_def compositeBitmapOverBackground_def
      sample_env_def sample_defs blank_def)

lemma sample_tiff_run:
  "deliver (blank\<lparr>bitmap := Some \<lparr>data = [1, 2, 3, 4], width = 1, height = 1\<rparr>,
                  originalMime := Some ''image/png''\<rparr>)
     (encode_tiff sample_env
        (blank\<lparr>bitmap := Some \<lparr>data = [1, 2, 3, 4], width = 1, height = 1\<rparr>,
               originalMime := Some ''image/png''\<rparr>)) =
   \<lparr>this_after =
      blank\<lparr>bitmap := Some \<lparr>data = [1, 2, 3, 4], width = 1, height = 1\<rparr>,
            originalMime := Some ''image/png''\<rparr>,
    cb_calls = [CbCall Null (BufferVal [0x49, 0x49, 0x2A, 0, 1, 1, 1, 2, 3, 255])],
    completion = Returned\<rparr>"
  by (simp add: deliver_def encode_tiff_def compositeBitmapOverBackground_def
      sample_env_def sample_defs blank_def)

lemma sample_bmp_run:
  "deliver
     (fst (encode_bmp sample_env
        (blank\<lparr>bitmap := Some \<lparr>data = [1, 2, 3, 4], width = 1, height = 1\<rparr>,
               originalMime := Some ''image/png''\<rparr>)))
     (snd (encode_bmp sample_env
        (blank\<lparr>bitmap := Some \<lparr>data = [1, 2, 3, 4], width = 1, height = 1\<rparr>,
               originalMime := Some ''image/png''\<rparr>))) =
   \<lparr>this_after =
      blank\<lparr>bitmap := Some \<lparr>data = [4, 3, 2, 1], width = 1, height = 1\<rparr>,
            originalMime := Some ''image/png''\<rparr>,
    cb_calls = [CbCall Null (BufferVal [0x42, 0x4D, 1, 1, 4, 3, 2, 255])],
    completion = Returned\<rparr>"
  by (simp add: deliver_def encode_bmp_def run_op_def compositeBitmapOverBackground_def
      sample_env_def sample_defs blank_def)

subsection \<open>What the catch clause does\<close>

lemma parseBitmap_catch_falls_through:
  assumes "getMIMEFromBuffer E d path = Str m"
    and "is_function cb"
    and "decode_switch E d m cb (this\<lparr>originalMime := Some (toLowerCase m)\<rparr>)
           = (this2, cs, Throw error)"
  shows "parseBitmap E d path cb this =
           \<lparr>this_after = this2,
            cb_calls = cs @ [CbCall error (ImageVal this2), CbCall Null (ImageVal this2)],
            completion = Returned\<rparr>"
  by (simp add: parseBitmap_string [OF assms(1,2)] assms(3) report_success_function [OF assms(2)])

section \<open>The claims\<close>

text \<open>
  Claim C1: every call of \<^verbatim>\<open>parseBitmap\<close> calls the completion callback exactly once,
  with an error or with a success value; when a decode primitive throws, the callback
  gets the error and is not called again with a success value.

  The code does not do that. The \<^verbatim>\<open>catch\<close> clause of \<^verbatim>\<open>parseBitmap\<close> gives the error to
  the callback and then falls through to \<^verbatim>\<open>cb.call(this, null, this)\<close>, where the two
  other error paths of the function return (\<open>parseBitmap_catch_falls_through\<close> says it
  for every environment). On the eight bytes of the PNG signature with nothing after
  them, the buffer is sniffed as PNG, the PNG decoder throws, and the callback is called
  twice: first with the error, then with \<^verbatim>\<open>null\<close>.
\<close>

theorem parseBitmap_decode_failure_calls_back_twice:
  "parseBitmap sample_env [0x89, 0x50, 0x4E, 0x47, 0x0D, 0x0A, 0x1A, 0x0A] None Function blank =
     \<lparr>this_after = blank\<lparr>originalMime := Some ''image/png''\<rparr>,
      cb_calls =
        [CbCall (ErrorObj ''unexpected end of data'')
           (ImageVal (blank\<lparr>originalMime := Some ''image/png''\<rparr>)),
         CbCall Null (ImageVal (blank\<lparr>originalMime := Some ''image/png''\<rparr>))],
      completion = Returned\<rparr>"
proof -
  have s: "getMIMEFromBuffer sample_env [0x89, 0x50, 0x4E, 0x47, 0x0D, 0x0A, 0x1A, 0x0A] None
             = Str ''image/png''"
    by (simp add: getMIMEFromBuffer_def sample_env_def sample_defs)
  have f: "is_function Function" by simp
  have sw: "decode_switch sample_env [0x89, 0x50, 0x4E, 0x47, 0x0D, 0x0A, 0x1A, 0x0A]
              ''image/png'' Function
              (blank\<lparr>originalMime := Some ''image/png''\<rparr>) =
            (blank\<lparr>originalMime := Some ''image/png''\<rparr>, [],
             Throw (ErrorObj ''unexpected end of data''))"
    by (simp add: decode_switch_def sample_env_def sample_defs MIME_defs)
  show ?thesis
    unfolding parseBitmap_string [OF s f] lower_simps sw
    by (simp add: report_success_function)
qed

text \<open>
  Claim C2: when the buffer is identified as BMP (\<^verbatim>\<open>image/bmp\<close> or
  \<^verbatim>\<open>image/x-ms-bmp\<close>) and the BMP decoder throws, \<^verbatim>\<open>parseBitmap\<close> completes
  successfully: the callback is called once, with a \<^verbatim>\<open>null\<close> error, and the bitmap of
  the image is what it was before the call (unset, for an image that had none).
  The third hypothesis says that \<^verbatim>\<open>getMIME\<close> reads the format just recorded.
\<close>

theorem parseBitmap_bmp_failure_swallowed:
  assumes "getMIMEFromBuffer E d path = Str m"
    and "toLowerCase m = MIME_BMP \<or> toLowerCase m = MIME_X_MS_BMP"
    and "getMIME E (this\<lparr>originalMime := Some (toLowerCase m)\<rparr>) = Str (toLowerCase m)"
    and "BMP_decode E d = Inl e"
    and "is_function cb"
  shows "parseBitmap E d path cb this =
           \<lparr>this_after = this\<lparr>originalMime := Some (toLowerCase m)\<rparr>,
            cb_calls = [CbCall Null (ImageVal (this\<lparr>originalMime := Some (toLowerCase m)\<rparr>))],
            completion = Returned\<rparr>
         \<and> bitmap (this_after (parseBitmap E d path cb this)) = bitmap this"
proof -
  have sw: "decode_switch E d m cb (this\<lparr>originalMime := Some (toLowerCase m)\<rparr>) =
              (this\<lparr>originalMime := Some (toLowerCase m)\<rparr>, [], Break)"
    using assms(2,3,4) by (auto simp: decode_switch_def MIME_defs)
  show ?thesis
    by (simp add: parseBitmap_string [OF assms(1,5)] sw report_success_function [OF assms(5)])
qed

theorem parseBitmap_bmp_failure_swallowed_witness:
  "getMIMEFromBuffer sample_env [0x42, 0x4D, 1, 1] None = Str ''image/bmp''
   \<and> BMP_decode sample_env [0x42, 0x4D, 1, 1] = Inl (ErrorObj ''unexpected end of data'')
   \<and> parseBitmap sample_env [0x42, 0x4D, 1, 1] None Function blank =
       \<lparr>this_after = blank\<lparr>originalMime := Some ''image/bmp''\<rparr>,
        cb_calls = [CbCall Null (ImageVal (blank\<lparr>originalMime := Some ''image/bmp''\<rparr>))],
        completion = Returned\<rparr>
   \<and> bitmap (this_after (parseBitmap sample_env [0x42, 0x4D, 1, 1] None Function blank)) = None"
proof -
  have h1: "getMIMEFromBuffer sample_env [0x42, 0x4D, 1, 1] None = Str ''image/bmp''"
    by (simp add: getMIMEFromBuffer_def sample_env_def sample_defs)
  have h2: "toLowerCase ''image/bmp'' = MIME_BMP \<or> toLowerCase ''image/bmp'' = MIME_X_MS_BMP"
    by (simp add: lower_simps MIME_defs)
  have h3: "getMIME sample_env (blank\<lparr>originalMime := Some (toLowerCase ''image/bmp'')\<rparr>)
              = Str (toLowerCase ''image/bmp'')"
    by (simp add: lower_simps sample_env_def sample_defs)
  have h4: "BMP_decode sample_env [0x42, 0x4D, 1, 1] = Inl (ErrorObj ''unexpected end of data'')"
    by (simp add: sample_env_def sample_defs)
  have h5: "is_function Function" by simp
  show ?thesis
    using parseBitmap_bmp_failure_swallowed [OF h1 h2 h3 h4 h5] h1 h4
    by (simp add: lower_simps blank_def)
qed

text \<open>
  Claim C3: an encode call whose target format, after the auto sentinel has been
  replaced, is not a non-empty recognized string fails with \<open>InvalidArgument\<close>; a
  target that is not a string and an empty string both do.

  As stated the claim fails: \<^verbatim>\<open>getBuffer\<close> only tests \<^verbatim>\<open>typeof mime\<close>, so the empty
  string passes the test and reaches the default case of the \<^verbatim>\<open>switch\<close>, where the
  callback gets the message for an unsupported format.
\<close>

theorem getBuffer_empty_target_counterexample:
  "getBuffer sample_env (Str []) Function blank =
     \<lparr>this_after = blank, cb_calls = [CbCall (Str ''Unsupported MIME type: '') NoValue],
      completion = Returned\<rparr>
   \<and> kind_of (Str ''Unsupported MIME type: '') \<noteq> Some InvalidArgument"
  by (simp add: getBuffer_string lower_simps MIME_defs kind_of_message_def starts_with_def)

text \<open>
  Claim C3 as amended: let \<open>mime1\<close> be the target after the auto sentinel has been
  replaced. When \<open>mime1\<close> is not a string the call fails with \<open>InvalidArgument\<close>: the
  error \<^verbatim>\<open>mime must be a string\<close> goes to the callback, or is thrown when \<^verbatim>\<open>cb\<close> is
  not a function. When \<open>mime1\<close> is a string for which there is no encoder (the empty
  string is one) and \<^verbatim>\<open>cb\<close> is a function, the callback gets
  \<^verbatim>\<open>Unsupported MIME type: \<close> followed by the string, an \<open>UnsupportedFormat\<close>.
\<close>

theorem getBuffer_target_validation:
  assumes "mime1 = (if mime0 = AUTO then getMIME E this else mime0)"
  shows "(\<not> is_string mime1 \<and> is_function cb \<longrightarrow>
            getBuffer E mime0 cb this =
              \<lparr>this_after = this,
               cb_calls = [CbCall (ErrorObj ''mime must be a string'') NoValue],
               completion = Returned\<rparr>)
       \<and> (\<not> is_string mime1 \<and> \<not> is_function cb \<longrightarrow>
            getBuffer E mime0 cb this =
              \<lparr>this_after = this, cb_calls = [],
               completion = Thrown (ErrorObj ''mime must be a string'')\<rparr>)
       \<and> kind_of (ErrorObj ''mime must be a string'') = Some InvalidArgument
       \<and> (mime1 = Str s \<and> \<not> encodable (toLowerCase s) \<and> is_function cb \<longrightarrow>
            getBuffer E mime0 cb this =
              \<lparr>this_after = this,
               cb_calls = [CbCall (Str (''Unsupported MIME type: '' @ s)) NoValue],
               completion = Returned\<rparr>
            \<and> kind_of (Str (''Unsupported MIME type: '' @ s)) = Some UnsupportedFormat)"
  unfolding getBuffer_substituted [OF assms]
  by (cases mime1)
    (simp_all add: getBuffer_string fail_with_def throwError_def
      kind_of_message_def starts_with_def encodable_def)

theorem getBuffer_target_validation_witness:
  "getBuffer sample_env (Num 7) Function blank =
     \<lparr>this_after = blank, cb_calls = [CbCall (ErrorObj ''mime must be a string'') NoValue],
      completion = Returned\<rparr>
   \<and> getBuffer sample_env Undefined Undefined blank =
     \<lparr>this_after = blank, cb_calls = [],
      completion = Thrown (ErrorObj ''mime must be a string'')\<rparr>
   \<and> getBuffer sample_env (Str ''image/gif'') Function blank =
     \<lparr>this_after = blank, cb_calls = [CbCall (Str ''Unsupported MIME type: image/gif'') NoValue],
      completion = Returned\<rparr>
   \<and> kind_of (Str ''Unsupported MIME type: image/gif'') = Some UnsupportedFormat"
proof -
  have a: "Num 7 = (if Num 7 = AUTO then getMIME sample_env blank else Num 7)"
    by (simp add: AUTO_def)
  have b: "Undefined = (if Undefined = AUTO then getMIME sample_env blank else Undefined)"
    by (simp add: AUTO_def)
  have c: "Str ''image/gif'' =
             (if Str ''image/gif'' = AUTO then getMIME sample_env blank else Str ''image/gif'')"
    by (simp add: AUTO_def)
  have n: "\<not> encodable (toLowerCase ''image/gif'')"
    by (simp add: lower_simps encodable_def MIME_defs)
  show ?thesis
    using getBuffer_target_validation [OF a, where cb = Function and s = "[]"]
      getBuffer_target_validation [OF b, where cb = Undefined and s = "[]"]
      getBuffer_target_validation [OF c, where cb = Function and s = "''image/gif''"] n
    by simp
qed

text \<open>
  Claim C4: for a JPEG-decoded image with parsed EXIF metadata the orientation
  normalizer makes exactly the calls of the table for the orientation code (1 none,
  2 mirror horizontal, 3 rotate 180, 4 mirror vertical, 5 rotate -90 then mirror
  horizontal, 6 rotate -90, 7 rotate 90 then mirror horizontal, 8 rotate -270), and it
  leaves the image as it is when the code is 1 or the metadata is absent.
  \<open>orientation_correction\<close> is the table, \<open>apply_calls\<close> makes its calls in order;
  absent metadata is a missing \<^verbatim>\<open>_exif\<close>, missing tags or a falsy orientation tag.
\<close>

theorem exifRotate_follows_table:
  "(1 \<le> n \<and> n \<le> 8 \<and> orientation_of img = Num n \<longrightarrow>
      exifRotate E img = apply_calls E (orientation_correction n) img)
   \<and> (orientation_of img = Num 1 \<or> \<not> truthy (orientation_of img) \<longrightarrow>
        exifRotate E img = (img, None))
   \<and> (exif img = None \<longrightarrow> exifRotate E img = (img, None))"
proof -
  have "exifRotate E img = apply_calls E (orientation_correction n) img"
    if "orientation_of img = Num n"
    by (simp add: exifRotate_code [OF that] orientation_correction_def
        apply_calls_single apply_calls_pair del: apply_calls.simps(2))
  moreover have "exifRotate E img = (img, None)"
    if "orientation_of img = Num 1 \<or> \<not> truthy (orientation_of img)"
    using that by (auto simp: exifRotate_def)
  moreover have "exifRotate E img = (img, None)" if "exif img = None"
    using that by (simp add: exifRotate_def orientation_of_def)
  ultimately show ?thesis by blast
qed

theorem exifRotate_follows_table_witness:
  "exifRotate sample_env
     (blank\<lparr>bitmap := Some \<lparr>data = [1, 1, 1, 1, 2, 2, 2, 2], width = 2, height = 1\<rparr>,
            exif := Some \<lparr>tags = Some \<lparr>Orientation = Num 6\<rparr>\<rparr>\<rparr>) =
     (blank\<lparr>bitmap := Some \<lparr>data = [1, 1, 1, 1, 2, 2, 2, 2], width = 1, height = 2\<rparr>,
            exif := Some \<lparr>tags = Some \<lparr>Orientation = Num 6\<rparr>\<rparr>\<rparr>, None)
   \<and> exifRotate sample_env
     (blank\<lparr>bitmap := Some \<lparr>data = [1, 1, 1, 1, 2, 2, 2, 2], width = 2, height = 1\<rparr>,
            exif := Some \<lparr>tags = Some \<lparr>Orientation = Num 1\<rparr>\<rparr>\<rparr>) =
     (blank\<lparr>bitmap := Some \<lparr>data = [1, 1, 1, 1, 2, 2, 2, 2], width = 2, height = 1\<rparr>,
            exif := Some \<lparr>tags = Some \<lparr>Orientation = Num 1\<rparr>\<rparr>\<rparr>, None)
   \<and> exifRotate sample_env
     (blank\<lparr>bitmap := Some \<lparr>data = [1, 1, 1, 1, 2, 2, 2, 2], width = 2, height = 1\<rparr>\<rparr>) =
     (blank\<lparr>bitmap := Some \<lparr>data = [1, 1, 1, 1, 2, 2, 2, 2], width = 2, height = 1\<rparr>\<rparr>, None)"
proof -
  let ?b = "\<lparr>data = [1, 1, 1, 1, 2, 2, 2, 2], width = 2, height = 1\<rparr>"
  let ?i6 = "blank\<lparr>bitmap := Some ?b, exif := Some \<lparr>tags = Some \<lparr>Orientation = Num 6\<rparr>\<rparr>\<rparr>"
  let ?i1 = "blank\<lparr>bitmap := Some ?b, exif := Some \<lparr>tags = Some \<lparr>Orientation = Num 1\<rparr>\<rparr>\<rparr>"
  let ?i0 = "blank\<lparr>bitmap := Some ?b\<rparr>"
  have o6: "(1::int) \<le> 6 \<and> (6::int) \<le> 8 \<and> orientation_of ?i6 = Num 6"
    by (simp add: orientation_of_def)
  have o1: "orientation_of ?i1 = Num 1 \<or> \<not> truthy (orientation_of ?i1)"
    by (simp add: orientation_of_def)
  have n: "exif ?i0 = None"
    by (simp add: blank_def)
  have a: "exifRotate sample_env ?i6 = apply_calls sample_env (orientation_correction 6) ?i6"
    using exifRotate_follows_table [where E = sample_env and n = 6 and img = ?i6] o6 by blast
  have b: "exifRotate sample_env ?i1 = (?i1, None)"
    using exifRotate_follows_table [where E = sample_env and n = 1 and img = ?i1] o1 by blast
  have c: "exifRotate sample_env ?i0 = (?i0, None)"
    using exifRotate_follows_table [where E = sample_env and n = 1 and img = ?i0] n by blast
  show ?thesis
    unfolding a b c sample_rotation by simp
qed

text \<open>
  Claim C5: for a buffer identified as JPEG, a failure of the EXIF parse or of the
  orientation normalization that follows never fails the decode: the decode still
  completes successfully with the decoded bitmap, and the failure is not reported.

  As stated the claim fails where the normalization fails after one of its calls has
  changed the bitmap. The inner \<^verbatim>\<open>try\<close>/\<^verbatim>\<open>catch\<close> of the JPEG case drops the error and
  undoes nothing: for orientation code 7, when \<^verbatim>\<open>rotate\<close> succeeds and \<^verbatim>\<open>mirror\<close>
  throws, the decode completes successfully with the rotated bitmap, which is not the
  decoded one.
\<close>

theorem parseBitmap_half_normalized_counterexample:
  "JPEG_decode (sample_env\<lparr>img_mirror := \<lambda>horizontal vertical img.
                                (bitmap img, Some (ErrorObj ''mirror failed''))\<rparr>)
     [0xFF, 0xD8, 0xFF, 7, 2, 1, 1, 1, 1, 1, 2, 2, 2, 2]
     = Inr \<lparr>data = [1, 1, 1, 1, 2, 2, 2, 2], width = 2, height = 1\<rparr>
   \<and> parseBitmap (sample_env\<lparr>img_mirror := \<lambda>horizontal vertical img.
                                (bitmap img, Some (ErrorObj ''mirror failed''))\<rparr>)
       [0xFF, 0xD8, 0xFF, 7, 2, 1, 1, 1, 1, 1, 2, 2, 2, 2] None Function blank =
       \<lparr>this_after =
          blank\<lparr>originalMime := Some ''image/jpeg'',
                bitmap := Some \<lparr>data = [2, 2, 2, 2, 1, 1, 1, 1], width = 1, height = 2\<rparr>,
                exif := Some \<lparr>tags = Some \<lparr>Orientation = Num 7\<rparr>\<rparr>\<rparr>,
        cb_calls =
          [CbCall Null
             (ImageVal
                (blank\<lparr>originalMime := Some ''image/jpeg'',
                       bitmap := Some \<lparr>data = [2, 2, 2, 2, 1, 1, 1, 1], width = 1, height = 2\<rparr>,
                       exif := Some \<lparr>tags = Some \<lparr>Orientation = Num 7\<rparr>\<rparr>\<rparr>))],
        completion = Returned\<rparr>
   \<and> \<lparr>data = [2, 2, 2, 2, 1, 1, 1, 1], width = 1, height = 2\<rparr>
       \<noteq> \<lparr>data = [1, 1, 1, 1, 2, 2, 2, 2 :: 8 word], width = 2, height = 1\<rparr>"
proof -
  let ?E = "sample_env\<lparr>img_mirror := \<lambda>horizontal vertical img.
                          (bitmap img, Some (ErrorObj ''mirror failed''))\<rparr>"
  let ?d = "[0xFF, 0xD8, 0xFF, 7, 2, 1, 1, 1, 1, 1, 2, 2, 2, 2] :: bytes"
  let ?b = "\<lparr>data = [1, 1, 1, 1, 2, 2, 2, 2], width = 2, height = 1\<rparr>"
  have f: "is_function Function" by simp
  have l: "toLowerCase ''image/jpeg'' = MIME_JPEG" by (simp add: lower_simps MIME_defs)
  have s: "getMIMEFromBuffer ?E ?d None = Str ''image/jpeg''"
    by (simp add: getMIMEFromBuffer_def sample_env_def sample_defs)
  have g: "getMIME ?E (blank\<lparr>originalMime := Some MIME_JPEG\<rparr>) = Str MIME_JPEG"
    by (simp add: sample_env_def sample_defs MIME_defs)
  have j: "JPEG_decode ?E ?d = Inr ?b"
    by (simp add: sample_env_def sample_defs)
  have p: "EXIFParser_parse ?E ?d = Inr \<lparr>tags = Some \<lparr>Orientation = Num 7\<rparr>\<rparr>"
    by (simp add: sample_env_def sample_defs)
  have run: "parseBitmap ?E ?d None Function blank =
      \<lparr>this_after =
         fst (exifRotate ?E (blank\<lparr>originalMime := Some MIME_JPEG, bitmap := Some ?b,
                                    exif := Some \<lparr>tags = Some \<lparr>Orientation = Num 7\<rparr>\<rparr>\<rparr>)),
       cb_calls =
         [CbCall Null
            (ImageVal
               (fst (exifRotate ?E (blank\<lparr>originalMime := Some MIME_JPEG, bitmap := Some ?b,
                                          exif := Some \<lparr>tags = Some \<lparr>Orientation = Num 7\<rparr>\<rparr>\<rparr>))))],
       completion = Returned\<rparr>"
    using parseBitmap_jpeg [OF s l g j f] by (simp only: p sum.case)
  show ?thesis
    unfolding run sample_half_rotation fst_conv
    using j by (simp add: MIME_defs)
qed

text \<open>
  Claim C5 as amended: for a buffer identified as JPEG that the JPEG decoder accepts, a
  failure of the EXIF parse or of the orientation normalization never fails the decode:
  the callback is called once, with a \<^verbatim>\<open>null\<close> error and the image, and the failure
  is not reported. The image holds the decoded bitmap when the parse throws (first
  part), and when the first call of the correction throws and leaves the bitmap as it
  was (third part). In general it is the image the normalizer left, whether it threw
  or not (second part, \<open>failure\<close> is any outcome): the image after the calls of the
  table for the orientation code, up to and including the call that threw (fourth
  part).
\<close>

theorem parseBitmap_exif_failure_swallowed:
  assumes "getMIMEFromBuffer E d path = Str m"
    and "toLowerCase m = MIME_JPEG"
    and "getMIME E (this\<lparr>originalMime := Some MIME_JPEG\<rparr>) = Str MIME_JPEG"
    and "JPEG_decode E d = Inr b"
    and "is_function cb"
  shows "(EXIFParser_parse E d = Inl err \<longrightarrow>
            parseBitmap E d path cb this =
              \<lparr>this_after = this\<lparr>originalMime := Some MIME_JPEG, bitmap := Some b\<rparr>,
               cb_calls =
                 [CbCall Null (ImageVal (this\<lparr>originalMime := Some MIME_JPEG, bitmap := Some b\<rparr>))],
               completion = Returned\<rparr>)
       \<and> (EXIFParser_parse E d = Inr x
            \<and> exifRotate E (this\<lparr>originalMime := Some MIME_JPEG, bitmap := Some b,
                                   exif := Some x\<rparr>) = (this2, failure) \<longrightarrow>
            parseBitmap E d path cb this =
              \<lparr>this_after = this2, cb_calls = [CbCall Null (ImageVal this2)],
               completion = Returned\<rparr>)
       \<and> (EXIFParser_parse E d = Inr x
            \<and> orientation_of (this\<lparr>originalMime := Some MIME_JPEG, bitmap := Some b,
                                     exif := Some x\<rparr>) = Num n
            \<and> orientation_correction n = c # cs
            \<and> capability E c (this\<lparr>originalMime := Some MIME_JPEG, bitmap := Some b,
                                     exif := Some x\<rparr>) = (Some b, Some e) \<longrightarrow>
            parseBitmap E d path cb this =
              \<lparr>this_after = this\<lparr>originalMime := Some MIME_JPEG, bitmap := Some b,
                                  exif := Some x\<rparr>,
               cb_calls =
                 [CbCall Null (ImageVal (this\<lparr>originalMime := Some MIME_JPEG, bitmap := Some b,
                                               exif := Some x\<rparr>))],
               completion = Returned\<rparr>)
       \<and> (EXIFParser_parse E d = Inr x
            \<and> 1 \<le> n \<and> n \<le> 8
            \<and> orientation_of (this\<lparr>originalMime := Some MIME_JPEG, bitmap := Some b,
                                     exif := Some x\<rparr>) = Num n \<longrightarrow>
            this_after (parseBitmap E d path cb this) =
              fst (apply_calls E (orientation_correction n)
                     (this\<lparr>originalMime := Some MIME_JPEG, bitmap := Some b, exif := Some x\<rparr>)))"
proof -
  let ?ix = "this\<lparr>originalMime := Some MIME_JPEG, bitmap := Some b, exif := Some x\<rparr>"
  note pb = parseBitmap_jpeg [OF assms]
  have a: "bitmap ?ix = Some b" by simp
  have u: "?ix\<lparr>bitmap := Some b\<rparr> = ?ix" by simp
  have c: "exifRotate E ?ix = (?ix, Some e)"
    if "orientation_of ?ix = Num n" "orientation_correction n = c # cs"
       "capability E c ?ix = (Some b, Some e)"
    using exifRotate_calls [OF that(1), of E] apply_calls_first_throws [OF that(3), of cs]
    by (simp only: that(2) u)
  have d: "exifRotate E ?ix = apply_calls E (orientation_correction n) ?ix"
    if "orientation_of ?ix = Num n"
    by (rule exifRotate_calls [OF that])
  show ?thesis
    using c d by (auto simp: pb simp del: apply_calls.simps)
qed

theorem parseBitmap_exif_failure_swallowed_witness:
  "EXIFParser_parse sample_env [0xFF, 0xD8, 0xFF, 9, 1, 1, 1, 2, 3, 4]
     = Inl (ErrorObj ''Invalid EXIF data'')
   \<and> parseBitmap sample_env [0xFF, 0xD8, 0xFF, 9, 1, 1, 1, 2, 3, 4] None Function blank =
       \<lparr>this_after =
          blank\<lparr>originalMime := Some ''image/jpeg'',
                bitmap := Some \<lparr>data = [1, 2, 3, 4], width = 1, height = 1\<rparr>\<rparr>,
        cb_calls =
          [CbCall Null
             (ImageVal
                (blank\<lparr>originalMime := Some ''image/jpeg'',
                       bitmap := Some \<lparr>data = [1, 2, 3, 4], width = 1, height = 1\<rparr>\<rparr>))],
        completion = Returned\<rparr>
   \<and> img_rotate (sample_env\<lparr>img_rotate := \<lambda>degrees resize img.
                                  (bitmap img, Some (ErrorObj ''rotation failed''))\<rparr>)
        (- 90) False
        (blank\<lparr>originalMime := Some ''image/jpeg'',
               bitmap := Some \<lparr>data = [1, 2, 3, 4], width = 1, height = 1\<rparr>,
               exif := Some \<lparr>tags = Some \<lparr>Orientation = Num 6\<rparr>\<rparr>\<rparr>) =
       (Some \<lparr>data = [1, 2, 3, 4], width = 1, height = 1\<rparr>, Some (ErrorObj ''rotation failed''))
   \<and> parseBitmap (sample_env\<lparr>img_rotate := \<lambda>degrees resize img.
                                  (bitmap img, Some (ErrorObj ''rotation failed''))\<rparr>)
        [0xFF, 0xD8, 0xFF, 6, 1, 1, 1, 2, 3, 4] None Function blank =
       \<lparr>this_after =
          blank\<lparr>originalMime := Some ''image/jpeg'',
                bitmap := Some \<lparr>data = [1, 2, 3, 4], width = 1, height = 1\<rparr>,
                exif := Some \<lparr>tags = Some \<lparr>Orientation = Num 6\<rparr>\<rparr>\<rparr>,
        cb_calls =
          [CbCall Null
             (ImageVal
                (blank\<lparr>originalMime := Some ''image/jpeg'',
                       bitmap := Some \<lparr>data = [1, 2, 3, 4], width = 1, height = 1\<rparr>,
                       exif := Some \<lparr>tags = Some \<lparr>Orientation = Num 6\<rparr>\<rparr>\<rparr>))],
        completion = Returned\<rparr>
   \<and> this_after
        (parseBitmap (sample_env\<lparr>img_mirror := \<lambda>horizontal vertical img.
                                      (bitmap img, Some (ErrorObj ''mirror failed''))\<rparr>)
           [0xFF, 0xD8, 0xFF, 7, 2, 1, 1, 1, 1, 1, 2, 2, 2, 2] None Function blank) =
       blank\<lparr>originalMime := Some ''image/jpeg'',
             bitmap := Some \<lparr>data = [2, 2, 2, 2, 1, 1, 1, 1], width = 1, height = 2\<rparr>,
             exif := Some \<lparr>tags = Some \<lparr>Orientation = Num 7\<rparr>\<rparr>\<rparr>"
proof -
  let ?E = "sample_env\<lparr>img_rotate := \<lambda>degrees resize img.
                          (bitmap img, Some (ErrorObj ''rotation failed''))\<rparr>"
  let ?M = "sample_env\<lparr>img_mirror := \<lambda>horizontal vertical img.
                          (bitmap img, Some (ErrorObj ''mirror failed''))\<rparr>"
  let ?d9 = "[0xFF, 0xD8, 0xFF, 9, 1, 1, 1, 2, 3, 4] :: bytes"
  let ?d6 = "[0xFF, 0xD8, 0xFF, 6, 1, 1, 1, 2, 3, 4] :: bytes"
  let ?d7 = "[0xFF, 0xD8, 0xFF, 7, 2, 1, 1, 1, 1, 1, 2, 2, 2, 2] :: bytes"
  let ?b = "\<lparr>data = [1, 2, 3, 4], width = 1, height = 1\<rparr>"
  let ?b7 = "\<lparr>data = [1, 1, 1, 1, 2, 2, 2, 2], width = 2, height = 1\<rparr>"
  let ?x6 = "\<lparr>tags = Some \<lparr>Orientation = Num 6\<rparr>\<rparr>"
  let ?x7 = "\<lparr>tags = Some \<lparr>Orientation = Num 7\<rparr>\<rparr>"
  let ?i6 = "blank\<lparr>originalMime := Some MIME_JPEG, bitmap := Some ?b, exif := Some ?x6\<rparr>"
  let ?i7 = "blank\<lparr>originalMime := Some MIME_JPEG, bitmap := Some ?b7, exif := Some ?x7\<rparr>"
  have f: "is_function Function" by simp
  have l: "toLowerCase ''image/jpeg'' = MIME_JPEG" by (simp add: lower_simps MIME_defs)
  have s9: "getMIMEFromBuffer sample_env ?d9 None = Str ''image/jpeg''"
    by (simp add: getMIMEFromBuffer_def sample_env_def sample_defs)
  have g9: "getMIME sample_env (blank\<lparr>originalMime := Some MIME_JPEG\<rparr>) = Str MIME_JPEG"
    by (simp add: sample_env_def sample_defs MIME_defs)
  have j9: "JPEG_decode sample_env ?d9 = Inr ?b"
    by (simp add: sample_env_def sample_defs)
  have p9: "EXIFParser_parse sample_env ?d9 = Inl (ErrorObj ''Invalid EXIF data'')"
    by (simp add: sample_env_def sample_defs)
  have s6: "getMIMEFromBuffer ?E ?d6 None = Str ''image/jpeg''"
    by (simp add: getMIMEFromBuffer_def sample_env_def sample_defs)
  have g6: "getMIME ?E (blank\<lparr>originalMime := Some MIME_JPEG\<rparr>) = Str MIME_JPEG"
    by (simp add: sample_env_def sample_defs MIME_defs)
  have j6: "JPEG_decode ?E ?d6 = Inr ?b"
    by (simp add: sample_env_def sample_defs)
  have p6: "EXIFParser_parse ?E ?d6 = Inr ?x6"
    by (simp add: sample_env_def sample_defs)
  have o6: "orientation_of ?i6 = Num 6"
    by (simp add: orientation_of_def)
  have c6: "orientation_correction 6 = Rotate (- 90) False # []"
    by (simp add: orientation_correction_def)
  have r6: "capability ?E (Rotate (- 90) False) ?i6 = (Some ?b, Some (ErrorObj ''rotation failed''))"
    by simp
  have s7: "getMIMEFromBuffer ?M ?d7 None = Str ''image/jpeg''"
    by (simp add: getMIMEFromBuffer_def sample_env_def sample_defs)
  have g7: "getMIME ?M (blank\<lparr>originalMime := Some MIME_JPEG\<rparr>) = Str MIME_JPEG"
    by (simp add: sample_env_def sample_defs MIME_defs)
  have j7: "JPEG_decode ?M ?d7 = Inr ?b7"
    by (simp add: sample_env_def sample_defs)
  have p7: "EXIFParser_parse ?M ?d7 = Inr ?x7"
    by (simp add: sample_env_def sample_defs)
  have o7: "(1::int) \<le> 7 \<and> (7::int) \<le> 8 \<and> orientation_of ?i7 = Num 7"
    by (simp add: orientation_of_def)
  have a: "parseBitmap sample_env ?d9 None Function blank =
             \<lparr>this_after = blank\<lparr>originalMime := Some MIME_JPEG, bitmap := Some ?b\<rparr>,
              cb_calls =
                [CbCall Null (ImageVal (blank\<lparr>originalMime := Some MIME_JPEG, bitmap := Some ?b\<rparr>))],
              completion = Returned\<rparr>"
    using parseBitmap_exif_failure_swallowed [OF s9 l g9 j9 f] p9 by blast
  have b: "parseBitmap ?E ?d6 None Function blank =
             \<lparr>this_after = ?i6, cb_calls = [CbCall Null (ImageVal ?i6)], completion = Returned\<rparr>"
    using parseBitmap_exif_failure_swallowed [OF s6 l g6 j6 f, where x = ?x6 and n = 6 and c = "Rotate (- 90) False"
        and cs = "[]" and e = "ErrorObj ''rotation failed''"] p6 o6 c6 r6
    by blast
  have c: "this_after (parseBitmap ?M ?d7 None Function blank) =
             fst (apply_calls ?M (orientation_correction 7) ?i7)"
    using parseBitmap_exif_failure_swallowed [OF s7 l g7 j7 f, where x = ?x7 and n = 7] p7 o7 by blast
  have r: "img_rotate ?E (- 90) False ?i6 = (Some ?b, Some (ErrorObj ''rotation failed''))"
    by simp
  show ?thesis
    unfolding a b c sample_half_calls fst_conv
    using p9 r by (simp add: MIME_defs)
qed

text \<open>
  Claim C6: sniffing takes the result of the magic bytes first, whatever the path
  hint; the path is consulted only when the bytes give nothing; and when neither
  gives a string (or there is no path), the decode fails with the \<open>UnknownFormat\<close>
  error, whose message carries the path.
\<close>

theorem sniffing_order:
  "(fileType E d = Some ft \<longrightarrow> getMIMEFromBuffer E d path = Str (mime ft))
   \<and> (fileType E d = None \<and> path = Some p \<and> p \<noteq> [] \<longrightarrow>
        getMIMEFromBuffer E d path = MIME_getType E p)
   \<and> (fileType E d = None
        \<and> (case path of None \<Rightarrow> True | Some q \<Rightarrow> q = [] \<or> \<not> is_string (MIME_getType E q))
        \<and> is_function cb \<longrightarrow>
        parseBitmap E d path cb this =
          \<lparr>this_after = this,
           cb_calls = [CbCall (ErrorObj (''Could not find MIME for Buffer <''
                                          @ path_text path @ ''>'')) NoValue],
           completion = Returned\<rparr>
        \<and> kind_of (ErrorObj (''Could not find MIME for Buffer <'' @ path_text path @ ''>''))
            = Some UnknownFormat)"
proof -
  have k: "kind_of (ErrorObj (''Could not find MIME for Buffer <'' @ x)) = Some UnknownFormat"
    for x by (simp add: kind_of_message_def starts_with_def)
  have n: "\<not> is_string v \<Longrightarrow> is_function cb \<Longrightarrow>
      (case v of
         Str mime_str \<Rightarrow> f mime_str
       | _ \<Rightarrow> (case invoke cb c [] of
                 (cs, None) \<Rightarrow> \<lparr>this_after = this, cb_calls = cs, completion = Returned\<rparr>
               | (cs, Some t) \<Rightarrow> \<lparr>this_after = this, cb_calls = cs, completion = Thrown t\<rparr>))
       = \<lparr>this_after = this, cb_calls = [c], completion = Returned\<rparr>" for v f c
    by (cases v) (simp_all add: invoke_def)
  have m: "fileType E d = None \<Longrightarrow>
      (case path of None \<Rightarrow> True | Some q \<Rightarrow> q = [] \<or> \<not> is_string (MIME_getType E q)) \<Longrightarrow>
      \<not> is_string (getMIMEFromBuffer E d path)"
    by (auto simp: getMIMEFromBuffer_def split: option.splits)
  show ?thesis
    using k [of "path_text path @ ''>''"] n [OF m] 
    by (auto simp: getMIMEFromBuffer_def parseBitmap_def simp del: kind_of.simps)
qed

theorem sniffing_order_witness:
  "getMIMEFromBuffer sample_env [0x89, 0x50, 0x4E, 0x47, 1, 1, 1, 2, 3, 4] (Some ''photo.jpg'')
     = Str ''image/png''
   \<and> getMIMEFromBuffer sample_env [0, 0] (Some ''photo.jpg'') = Str ''image/jpeg''
   \<and> parseBitmap sample_env [0, 0] (Some ''notes.txt'') Function blank =
       \<lparr>this_after = blank,
        cb_calls = [CbCall (ErrorObj ''Could not find MIME for Buffer <notes.txt>'') NoValue],
        completion = Returned\<rparr>
   \<and> parseBitmap sample_env [0, 0] None Function blank =
       \<lparr>this_after = blank,
        cb_calls = [CbCall (ErrorObj ''Could not find MIME for Buffer <undefined>'') NoValue],
        completion = Returned\<rparr>
   \<and> kind_of (ErrorObj ''Could not find MIME for Buffer <notes.txt>'') = Some UnknownFormat"
proof -
  let ?png = "[0x89, 0x50, 0x4E, 0x47, 1, 1, 1, 2, 3, 4] :: bytes"
  let ?ft = "\<lparr>ext = ''png'', mime = ''image/png''\<rparr>"
  have f1: "fileType sample_env ?png = Some ?ft"
    by (simp add: sample_env_def sample_defs)
  have f0: "fileType sample_env [0, 0] = None"
    by (simp add: sample_env_def sample_defs)
  have t1: "MIME_getType sample_env ''photo.jpg'' = Str ''image/jpeg''"
    by (simp add: sample_env_def sample_defs)
  have t2: "\<not> is_string (MIME_getType sample_env ''notes.txt'')"
    by (simp add: sample_env_def sample_defs)
  have a: "getMIMEFromBuffer sample_env ?png (Some ''photo.jpg'') = Str (mime ?ft)"
    using sniffing_order [where E = sample_env and d = ?png and ft = ?ft and path = "Some ''photo.jpg''"] f1
    by blast
  have b: "getMIMEFromBuffer sample_env [0, 0] (Some ''photo.jpg'')
             = MIME_getType sample_env ''photo.jpg''"
    using sniffing_order [where E = sample_env and d = "[0, 0]" and p = "''photo.jpg''"
        and path = "Some ''photo.jpg''"] f0
    by simp
  have c: "parseBitmap sample_env [0, 0] (Some ''notes.txt'') Function blank =
       \<lparr>this_after = blank,
        cb_calls = [CbCall (ErrorObj (''Could not find MIME for Buffer <''
                      @ path_text (Some ''notes.txt'') @ ''>'')) NoValue],
        completion = Returned\<rparr>
      \<and> kind_of (ErrorObj (''Could not find MIME for Buffer <''
                      @ path_text (Some ''notes.txt'') @ ''>'')) = Some UnknownFormat"
    using sniffing_order [where E = sample_env and d = "[0, 0]" and path = "Some ''notes.txt''"
        and cb = Function and this = blank] f0 t2
    by simp
  have d: "parseBitmap sample_env [0, 0] None Function blank =
       \<lparr>this_after = blank,
        cb_calls = [CbCall (ErrorObj (''Could not find MIME for Buffer <''
                      @ path_text None @ ''>'')) NoValue],
        completion = Returned\<rparr>"
    using sniffing_order [where E = sample_env and d = "[0, 0]" and path = None
        and cb = Function and this = blank] f0
    by simp
  show ?thesis
    using a b c d t1 by (simp add: path_text_def)
qed

text \<open>
  Claim C7: for every image, encoding to the target \<^verbatim>\<open>image/gif\<close> (in any letter case)
  fails with the unsupported-format error: \<^verbatim>\<open>getBuffer\<close> has no GIF case, the callback
  gets the message of the default case, and the image is unchanged.
\<close>

theorem getBuffer_gif_unsupported:
  assumes "toLowerCase s = MIME_GIF" and "is_function cb"
  shows "getBuffer E (Str s) cb this =
           \<lparr>this_after = this,
            cb_calls = [CbCall (Str (''Unsupported MIME type: '' @ s)) NoValue],
            completion = Returned\<rparr>
         \<and> kind_of (Str (''Unsupported MIME type: '' @ s)) = Some UnsupportedFormat"
  using assms by (simp add: getBuffer_string kind_of_message_def starts_with_def MIME_defs)

theorem getBuffer_gif_unsupported_witness:
  "getBuffer sample_env (Str ''Image/GIF'') Function
     (blank\<lparr>bitmap := Some \<lparr>data = [1, 2, 3, 4], width = 1, height = 1\<rparr>,
            originalMime := Some ''image/gif''\<rparr>) =
     \<lparr>this_after =
        blank\<lparr>bitmap := Some \<lparr>data = [1, 2, 3, 4], width = 1, height = 1\<rparr>,
              originalMime := Some ''image/gif''\<rparr>,
      cb_calls = [CbCall (Str ''Unsupported MIME type: Image/GIF'') NoValue],
      completion = Returned\<rparr>
   \<and> kind_of (Str ''Unsupported MIME type: Image/GIF'') = Some UnsupportedFormat"
proof -
  have l: "toLowerCase ''Image/GIF'' = MIME_GIF" by (simp add: lower_simps MIME_defs)
  have f: "is_function Function" by simp
  show ?thesis
    using getBuffer_gif_unsupported [OF l f, where E = sample_env] by simp
qed

text \<open>
  Claim C8: encoding with the auto sentinel gives the same result (the same calls of
  the callback, the same outcome, the same image) as encoding with the format recorded
  at decode time. The recorded format is read through \<^verbatim>\<open>this.getMIME()\<close>; the second
  part says it for an image whose recorded format \<open>m\<close> is what \<^verbatim>\<open>getMIME\<close> returns.
\<close>

theorem getBuffer_auto_uses_recorded_format:
  "getBuffer E AUTO cb this = getBuffer E (getMIME E this) cb this
   \<and> (originalMime this = Some m \<and> getMIME E this = Str m \<longrightarrow>
        getBuffer E AUTO cb this = getBuffer E (Str m) cb this)"
  by (simp add: getBuffer_def AUTO_def)

theorem getBuffer_auto_uses_recorded_format_witness:
  "getMIME sample_env
     (blank\<lparr>bitmap := Some \<lparr>data = [1, 2, 3, 4], width = 1, height = 1\<rparr>,
            originalMime := Some ''image/png''\<rparr>) = Str ''image/png''
   \<and> getBuffer sample_env AUTO Function
     (blank\<lparr>bitmap := Some \<lparr>data = [1, 2, 3, 4], width = 1, height = 1\<rparr>,
            originalMime := Some ''image/png''\<rparr>) =
     getBuffer sample_env (Str ''image/png'') Function
     (blank\<lparr>bitmap := Some \<lparr>data = [1, 2, 3, 4], width = 1, height = 1\<rparr>,
            originalMime := Some ''image/png''\<rparr>)
   \<and> getBuffer sample_env AUTO Function
     (blank\<lparr>bitmap := Some \<lparr>data = [1, 2, 3, 4], width = 1, height = 1\<rparr>,
            originalMime := Some ''image/png''\<rparr>) =
     \<lparr>this_after =
        blank\<lparr>bitmap := Some \<lparr>data = [1, 2, 3, 4], width = 1, height = 1\<rparr>,
              originalMime := Some ''image/png''\<rparr>,
      cb_calls = [CbCall Null (BufferVal [0x89, 0x50, 0x4E, 0x47, 1, 1, 1, 2, 3, 4])],
      completion = Returned\<rparr>"
proof -
  let ?i = "blank\<lparr>bitmap := Some \<lparr>data = [1, 2, 3, 4], width = 1, height = 1\<rparr>,
                   originalMime := Some ''image/png''\<rparr>"
  have o: "originalMime ?i = Some ''image/png''" by simp
  have g: "getMIME sample_env ?i = Str ''image/png''"
    by (simp add: sample_env_def sample_defs)
  have e: "getBuffer sample_env AUTO Function ?i = getBuffer sample_env (Str ''image/png'') Function ?i"
    using getBuffer_auto_uses_recorded_format [where E = sample_env and this = ?i and m = "''image/png''" and cb = Function] o g
    by blast
  show ?thesis
    using g e sample_png_bytes by simp
qed

text \<open>
  Claim C9: encoding to a BMP target (\<^verbatim>\<open>image/bmp\<close> or \<^verbatim>\<open>image/x-ms-bmp\<close>) runs the
  conversion to the alternate channel order on the image itself before encoding, and
  the image stays converted afterwards: the image after the call holds the bitmap that
  \<^verbatim>\<open>toAGBR\<close> left, and the encoder is given the composite of that converted image.
\<close>

theorem getBuffer_bmp_converts_source:
  assumes "toLowerCase s = MIME_BMP \<or> toLowerCase s = MIME_X_MS_BMP"
    and "is_function cb"
  shows "this_after (getBuffer E (Str s) cb this) = this\<lparr>bitmap := fst (toAGBR E this)\<rparr>
       \<and> (snd (toAGBR E this) = None \<longrightarrow>
            getBuffer E (Str s) cb this =
              deliver (this\<lparr>bitmap := fst (toAGBR E this)\<rparr>)
                (case compositeBitmapOverBackground E (this\<lparr>bitmap := fst (toAGBR E this)\<rparr>) of
                   Inl e \<Rightarrow> Inl e
                 | Inr c \<Rightarrow> BMP_encode E c))"
proof -
  have ne: "toLowerCase s \<noteq> MIME_PNG" "toLowerCase s \<noteq> MIME_JPEG"
    using assms(1) by (auto simp: MIME_defs)
  have d: "this_after (deliver i r) = i" for i r
    by (simp add: deliver_def split: sum.split)
  show ?thesis
    using assms ne
    by (cases "toAGBR E this")
      (auto simp: getBuffer_string encode_bmp_def run_op_def d split: option.split)
qed

theorem getBuffer_bmp_converts_source_witness:
  "toAGBR sample_env (blank\<lparr>bitmap := Some \<lparr>data = [1, 2, 3, 4], width = 1, height = 1\<rparr>\<rparr>)
     = (Some \<lparr>data = [4, 3, 2, 1], width = 1, height = 1\<rparr>, None)
   \<and> getBuffer sample_env (Str ''IMAGE/BMP'') Function
       (blank\<lparr>bitmap := Some \<lparr>data = [1, 2, 3, 4], width = 1, height = 1\<rparr>\<rparr>) =
     \<lparr>this_after = blank\<lparr>bitmap := Some \<lparr>data = [4, 3, 2, 1], width = 1, height = 1\<rparr>\<rparr>,
      cb_calls = [CbCall Null (BufferVal [0x42, 0x4D, 1, 1, 4, 3, 2, 255])],
      completion = Returned\<rparr>"
proof -
  let ?i = "blank\<lparr>bitmap := Some \<lparr>data = [1, 2, 3, 4], width = 1, height = 1\<rparr>\<rparr>"
  have l: "toLowerCase ''IMAGE/BMP'' = MIME_BMP \<or> toLowerCase ''IMAGE/BMP'' = MIME_X_MS_BMP"
    by (simp add: lower_simps MIME_defs)
  have f: "is_function Function" by simp
  have t: "toAGBR sample_env ?i = (Some \<lparr>data = [4, 3, 2, 1], width = 1, height = 1\<rparr>, None)"
    by (simp add: sample_env_def sample_defs blank_def)
  have s: "snd (toAGBR sample_env ?i) = None"
    using t by simp
  have e: "getBuffer sample_env (Str ''IMAGE/BMP'') Function ?i =
             deliver (?i\<lparr>bitmap := fst (toAGBR sample_env ?i)\<rparr>)
               (case compositeBitmapOverBackground sample_env
                       (?i\<lparr>bitmap := fst (toAGBR sample_env ?i)\<rparr>) of
                  Inl e \<Rightarrow> Inl e
                | Inr c \<Rightarrow> BMP_encode sample_env c)"
    using getBuffer_bmp_converts_source [OF l f, where E = sample_env and this = ?i] s by blast
  show ?thesis
    using e t sample_bmp_composite sample_bmp_bytes by (simp add: deliver_def)
qed

text \<open>
  Claim C10: target formats are matched without regard to letter case. Two targets
  with the same lowercase form, for which there is an encoder, give the same result;
  a target whose lowercase form is a recognized token selects the encoder of that
  token (\<^verbatim>\<open>IMAGE/PNG\<close> the PNG encoder, and likewise for the JPEG, BMP and TIFF
  tokens); and the format that \<^verbatim>\<open>parseBitmap\<close> records is the lowercase form of the
  sniffed string, on every path through the function.
\<close>

theorem format_matching_case_insensitive:
  "(toLowerCase s = toLowerCase t \<and> encodable (toLowerCase s) \<longrightarrow>
      getBuffer E (Str s) cb this = getBuffer E (Str t) cb this)
   \<and> (toLowerCase s = MIME_PNG \<and> is_function cb \<longrightarrow>
      getBuffer E (Str s) cb this = deliver this (encode_png E this))
   \<and> (toLowerCase s = MIME_JPEG \<and> is_function cb \<longrightarrow>
      getBuffer E (Str s) cb this = deliver this (encode_jpeg E this))
   \<and> ((toLowerCase s = MIME_BMP \<or> toLowerCase s = MIME_X_MS_BMP) \<and> is_function cb \<longrightarrow>
      getBuffer E (Str s) cb this =
        deliver (fst (encode_bmp E this)) (snd (encode_bmp E this)))
   \<and> (toLowerCase s = MIME_TIFF \<and> is_function cb \<longrightarrow>
      getBuffer E (Str s) cb this = deliver this (encode_tiff E this))
   \<and> (getMIMEFromBuffer E d path = Str m \<longrightarrow>
      originalMime (this_after (parseBitmap E d path cb this)) = Some (toLowerCase m)
      \<and> toLowerCase (toLowerCase m) = toLowerCase m)"
proof -
  have distinct: "MIME_JPEG \<noteq> MIME_PNG" "MIME_BMP \<noteq> MIME_PNG" "MIME_BMP \<noteq> MIME_JPEG"
    "MIME_X_MS_BMP \<noteq> MIME_PNG" "MIME_X_MS_BMP \<noteq> MIME_JPEG"
    "MIME_TIFF \<noteq> MIME_PNG" "MIME_TIFF \<noteq> MIME_JPEG" "MIME_TIFF \<noteq> MIME_BMP"
    "MIME_TIFF \<noteq> MIME_X_MS_BMP"
    by (simp_all add: MIME_defs)
  show ?thesis
    using distinct
    by (auto simp: getBuffer_string encodable_def parseBitmap_this_after
        decode_switch_originalMime toLowerCase_idem)
qed

theorem format_matching_case_insensitive_witness:
  "getBuffer sample_env (Str ''IMAGE/PNG'') Function
     (blank\<lparr>bitmap := Some \<lparr>data = [1, 2, 3, 4], width = 1, height = 1\<rparr>,
            originalMime := Some ''image/png''\<rparr>) =
     \<lparr>this_after =
        blank\<lparr>bitmap := Some \<lparr>data = [1, 2, 3, 4], width = 1, height = 1\<rparr>,
              originalMime := Some ''image/png''\<rparr>,
      cb_calls = [CbCall Null (BufferVal [0x89, 0x50, 0x4E, 0x47, 1, 1, 1, 2, 3, 4])],
      completion = Returned\<rparr>
   \<and> getBuffer sample_env (Str ''IMAGE/PNG'') Function blank =
       deliver blank (encode_png sample_env blank)
   \<and> getBuffer sample_env (Str ''IMAGE/JPEG'') Function
     (blank\<lparr>bitmap := Some \<lparr>data = [1, 2, 3, 4], width = 1, height = 1\<rparr>,
            originalMime := Some ''image/png''\<rparr>) =
     \<lparr>this_after =
        blank\<lparr>bitmap := Some \<lparr>data = [1, 2, 3, 4], width = 1, height = 1\<rparr>,
              originalMime := Some ''image/png''\<rparr>,
      cb_calls = [CbCall Null (BufferVal [0xFF, 0xD8, 0xFF, 0, 1, 1, 1, 2, 3, 255])],
      completion = Returned\<rparr>
   \<and> getBuffer sample_env (Str ''Image/X-MS-BMP'') Function
     (blank\<lparr>bitmap := Some \<lparr>data = [1, 2, 3, 4], width = 1, height = 1\<rparr>,
            originalMime := Some ''image/png''\<rparr>) =
     \<lparr>this_after =
        blank\<lparr>bitmap := Some \<lparr>data = [4, 3, 2, 1], width = 1, height = 1\<rparr>,
              originalMime := Some ''image/png''\<rparr>,
      cb_calls = [CbCall Null (BufferVal [0x42, 0x4D, 1, 1, 4, 3, 2, 255])],
      completion = Returned\<rparr>
   \<and> getBuffer sample_env (Str ''IMAGE/TIFF'') Function
     (blank\<lparr>bitmap := Some \<lparr>data = [1, 2, 3, 4], width = 1, height = 1\<rparr>,
            originalMime := Some ''image/png''\<rparr>) =
     \<lparr>this_after =
        blank\<lparr>bitmap := Some \<lparr>data = [1, 2, 3, 4], width = 1, height = 1\<rparr>,
              originalMime := Some ''image/png''\<rparr>,
      cb_calls = [CbCall Null (BufferVal [0x49, 0x49, 0x2A, 0, 1, 1, 1, 2, 3, 255])],
      completion = Returned\<rparr>
   \<and> originalMime
        (this_after
           (parseBitmap (sample_env\<lparr>MIME_getType := \<lambda>p. Str ''IMAGE/PNG''\<rparr>) [0, 0]
              (Some ''PHOTO.PNG'') Function blank)) = Some ''image/png''"
proof -
  let ?i = "blank\<lparr>bitmap := Some \<lparr>data = [1, 2, 3, 4], width = 1, height = 1\<rparr>,
                   originalMime := Some ''image/png''\<rparr>"
  let ?E = "sample_env\<lparr>MIME_getType := \<lambda>p. Str ''IMAGE/PNG''\<rparr>"
  have l: "toLowerCase ''IMAGE/PNG'' = toLowerCase ''image/png''
             \<and> encodable (toLowerCase ''IMAGE/PNG'')"
    by (simp add: lower_simps encodable_def MIME_defs)
  have p: "toLowerCase ''IMAGE/PNG'' = MIME_PNG \<and> is_function Function"
    by (simp add: lower_simps MIME_defs)
  have j: "toLowerCase ''IMAGE/JPEG'' = MIME_JPEG \<and> is_function Function"
    by (simp add: lower_upper_jpeg MIME_defs)
  have x: "(toLowerCase ''Image/X-MS-BMP'' = MIME_BMP
              \<or> toLowerCase ''Image/X-MS-BMP'' = MIME_X_MS_BMP) \<and> is_function Function"
    by (simp add: lower_mixed_x_ms_bmp MIME_defs)
  have t: "toLowerCase ''IMAGE/TIFF'' = MIME_TIFF \<and> is_function Function"
    by (simp add: lower_upper_tiff MIME_defs)
  have a: "getBuffer sample_env (Str ''IMAGE/PNG'') Function ?i =
           getBuffer sample_env (Str ''image/png'') Function ?i"
    using format_matching_case_insensitive [where s = "''IMAGE/PNG''" and t = "''image/png''" and E = sample_env
        and cb = Function and this = ?i] l
    by blast
  have b: "getBuffer sample_env (Str ''IMAGE/PNG'') Function blank =
           deliver blank (encode_png sample_env blank)"
    using format_matching_case_insensitive [where s = "''IMAGE/PNG''" and E = sample_env and cb = Function and this = blank] p
    by blast
  have c: "originalMime (this_after (parseBitmap ?E [0, 0] (Some ''PHOTO.PNG'') Function blank))
             = Some (toLowerCase ''IMAGE/PNG'')"
    using format_matching_case_insensitive [where E = ?E and d = "[0, 0]" and path = "Some ''PHOTO.PNG''"
        and m = "''IMAGE/PNG''" and cb = Function and this = blank] sample_upper_sniff
    by blast
  have d: "getBuffer sample_env (Str ''IMAGE/JPEG'') Function ?i =
           deliver ?i (encode_jpeg sample_env ?i)"
    using format_matching_case_insensitive [where s = "''IMAGE/JPEG''" and E = sample_env and cb = Function and this = ?i] j
    by blast
  have e: "getBuffer sample_env (Str ''Image/X-MS-BMP'') Function ?i =
           deliver (fst (encode_bmp sample_env ?i)) (snd (encode_bmp sample_env ?i))"
    using format_matching_case_insensitive [where s = "''Image/X-MS-BMP''" and E = sample_env and cb = Function
        and this = ?i] x
    by blast
  have g: "getBuffer sample_env (Str ''IMAGE/TIFF'') Function ?i =
           deliver ?i (encode_tiff sample_env ?i)"
    using format_matching_case_insensitive [where s = "''IMAGE/TIFF''" and E = sample_env and cb = Function and this = ?i] t
    by blast
  show ?thesis
    unfolding d e g sample_jpeg_run sample_bmp_run sample_tiff_run
    using a b c sample_png_bytes by (simp add: lower_simps)
qed

end
